theory Spec2Isabelle
  imports Complex_Main "HOL-Library.AList" "HOL-Library.Sublist"
begin

section \<open>Activities\<close>

text \<open>
  An activity is the dictionary \<^verbatim>\<open>{user_id, timestamp, activity_type, details}\<close> that
  \<^verbatim>\<open>ingest_activity\<close> (backend/main.py) hands to the detector. The free-form
  \<^verbatim>\<open>details\<close> bag is modelled by the keys the code reads, each holding the value that
  \<^verbatim>\<open>details.get(key, default)\<close> yields (0, False or the empty string when the key is
  absent). The two hour keys are read without a default, so they are options.
  Python floats are modelled as reals, timestamps as seconds on the server's naive local
  clock.
\<close>

record details =
  size_mb :: real
  file_size_mb :: real
  sensitive :: bool
  action :: string
  data_sent_mb :: real
  attachment_size_mb :: real
  external_connections :: real
  external :: bool
  activity_hour :: "int option"
  logon_hour :: "int option"
  suspicious :: bool
  process_name :: string
  off_hours :: bool
  file_path :: string
  ip_address :: string
  device_id :: string

record activity =
  user_id :: string
  timestamp :: int
  activity_type :: string
  details :: details

definition hour_of :: "int \<Rightarrow> int" where
  "hour_of t = (t div 3600) mod 24"

text \<open>Python's \<^verbatim>\<open>a or b\<close> on numbers: the first operand unless it is falsy (0 or None).\<close>

definition py_or :: "real \<Rightarrow> real \<Rightarrow> real" where
  "py_or a b = (if a \<noteq> 0 then a else b)"

definition hour_or :: "int option \<Rightarrow> int option \<Rightarrow> int option" where
  "hour_or a b = (case a of None \<Rightarrow> b | Some h \<Rightarrow> (if h \<noteq> 0 then Some h else b))"

text \<open>
  \<^verbatim>\<open>details.get('activity_hour') or details.get('logon_hour')\<close>, and the hour of the
  parsed timestamp when that is None (the timestamp is always an ISO string at ingest).
\<close>

definition resolve_activity_hour :: "activity \<Rightarrow> int" where
  "resolve_activity_hour a =
     (case hour_or (activity_hour (details a)) (logon_hour (details a)) of
        Some h \<Rightarrow> h
      | None \<Rightarrow> hour_of (timestamp a))"

definition lower_char :: "char \<Rightarrow> char" where
  "lower_char c =
     (let n = (of_char c :: nat) in if 65 \<le> n \<and> n \<le> 90 then char_of (n + 32) else c)"

definition lower :: "string \<Rightarrow> string" where
  "lower s = map lower_char s"

text \<open>Python's \<^verbatim>\<open>xs[-n:]\<close>; with \<open>n = 0\<close> the slice \<^verbatim>\<open>xs[-0:]\<close> is the whole list.\<close>

definition py_last_n :: "nat \<Rightarrow> 'a list \<Rightarrow> 'a list" where
  "py_last_n n xs = (if n = 0 then xs else drop (length xs - n) xs)"

section \<open>The detector's per-user baselines (ml\_anomaly\_detector.py)\<close>

text \<open>
  A baseline is the dictionary created in \<^verbatim>\<open>_update_user_baseline\<close>. The inner
  dictionaries are association lists in insertion order, which is the order Python's
  stable \<^verbatim>\<open>sorted\<close> sees.
\<close>

record baseline =
  typical_hours :: "int set"
  hour_frequency :: "(int \<times> nat) list"
  avg_activity_rate :: "(string \<times> real) list"
  activity_distribution :: "(string \<times> nat) list"
  typical_sequences :: "string list list"

type_synonym user_baselines = "string \<rightharpoonup> baseline"

definition new_baseline :: baseline where
  "new_baseline = \<lparr>typical_hours = {}, hour_frequency = [], avg_activity_rate = [],
     activity_distribution = [], typical_sequences = []\<rparr>"

definition get_or :: "('k \<times> 'v) list \<Rightarrow> 'k \<Rightarrow> 'v \<Rightarrow> 'v" where
  "get_or m k d = (case map_of m k of None \<Rightarrow> d | Some v \<Rightarrow> v)"

text \<open>
  \<^verbatim>\<open>_update_user_baseline\<close>: \<open>now\<close> is the server clock; the bucket that is
  incremented is \<^verbatim>\<open>datetime.now().hour\<close>.
\<close>

definition update_user_baseline :: "user_baselines \<Rightarrow> int \<Rightarrow> string \<Rightarrow> activity \<Rightarrow> user_baselines" where
  "update_user_baseline ub now uid a =
     (let b = (case ub uid of None \<Rightarrow> new_baseline | Some b0 \<Rightarrow> b0);
          current_hour = hour_of now;
          hf = AList.update current_hour (get_or (hour_frequency b) current_hour 0 + 1)
                 (hour_frequency b);
          ad = AList.update (activity_type a)
                 (get_or (activity_distribution b) (activity_type a) 0 + 1)
                 (activity_distribution b);
          th = (if length hf > 100
                then set (map fst (take 12 (sort_key (\<lambda>p. - int (snd p)) hf)))
                else typical_hours b)
      in ub(uid \<mapsto> b\<lparr>typical_hours := th, hour_frequency := hf, activity_distribution := ad\<rparr>))"

definition calculate_off_hours_score :: "user_baselines \<Rightarrow> string \<Rightarrow> int \<Rightarrow> real" where
  "calculate_off_hours_score ub uid current_hour =
     (if \<not> (current_hour < 7 \<or> current_hour \<ge> 19) then 0
      else case ub uid of
        None \<Rightarrow> 0.8
      | Some b \<Rightarrow>
          if current_hour \<notin> typical_hours b then
            (if hour_frequency b \<noteq> [] then
               (let max_freq = Max (set (map snd (hour_frequency b)));
                    current_freq = get_or (hour_frequency b) current_hour 0;
                    deviation = (if max_freq > 0
                                 then 1 - real current_freq / real max_freq else 1)
                in min deviation 1)
             else 0.8)
          else 0.3)"

definition calculate_rapid_activity_score ::
    "user_baselines \<Rightarrow> int \<Rightarrow> string \<Rightarrow> activity list \<Rightarrow> string \<Rightarrow> real" where
  "calculate_rapid_activity_score ub now uid recent_activities atype =
     (case ub uid of
        None \<Rightarrow> 0
      | Some b \<Rightarrow>
          (let avg = get_or (avg_activity_rate b) atype 1;
               cutoff = now - 300;
               recent_count = length (filter (\<lambda>x. activity_type x = atype \<and> timestamp x > cutoff)
                                        recent_activities)
           in if avg > 0
              then min (max (((real recent_count - avg) / (sqrt avg + 1)) / 3) 0) 1
              else 0))"

definition calculate_pattern_deviation ::
    "user_baselines \<Rightarrow> string \<Rightarrow> activity \<Rightarrow> activity list \<Rightarrow> real" where
  "calculate_pattern_deviation ub uid a recent_activities =
     (case ub uid of
        None \<Rightarrow> 0
      | Some b \<Rightarrow>
          (let typical_freq = (case map_of (activity_distribution b) (activity_type a) of
                                 None \<Rightarrow> 0.1 | Some c \<Rightarrow> real c);
               total_recent = length recent_activities;
               current_freq =
                 real (length (filter (\<lambda>x. activity_type x = activity_type a) recent_activities))
                   / real (max total_recent 1);
               deviation = \<bar>current_freq - typical_freq\<bar> / max typical_freq 0.1
           in min deviation 1))"

definition calculate_temporal_anomaly ::
    "user_baselines \<Rightarrow> string \<Rightarrow> activity \<Rightarrow> activity list \<Rightarrow> real" where
  "calculate_temporal_anomaly ub uid a recent_activities =
     (case ub uid of
        None \<Rightarrow> 0
      | Some b \<Rightarrow>
          (let activity_sequence = map activity_type (py_last_n 10 recent_activities)
           in if typical_sequences b \<noteq> [] then
                (if list_ex (\<lambda>seq. py_last_n (length seq) activity_sequence = seq)
                      (typical_sequences b)
                 then 0 else 0.6)
              else 0))"

text \<open>\<^verbatim>\<open>_extract_ml_features\<close>: the 13 features, in the order of \<^verbatim>\<open>feature_names\<close>.\<close>

definition extract_ml_features ::
    "user_baselines \<Rightarrow> int \<Rightarrow> activity \<Rightarrow> string \<Rightarrow> activity list \<Rightarrow> real list" where
  "extract_ml_features ub now a uid recent_activities =
     (let d = details a;
          file_size = py_or (size_mb d) (file_size_mb d);
          file_count = length (filter (\<lambda>x. activity_type x = ''file_access'') recent_activities);
          sensitive_count = length (filter (\<lambda>x. activity_type x = ''file_access''
                                \<and> sensitive (details x)) recent_activities);
          delete_count = length (filter (\<lambda>x. activity_type x = ''file_access''
                                \<and> action (details x) = ''delete'') recent_activities);
          data_transfer = py_or (data_sent_mb d) (attachment_size_mb d);
          external_conns = external_connections d;
          email_attachment = attachment_size_mb d;
          external_emails = length (filter (\<lambda>x. activity_type x = ''email''
                                \<and> external (details x)) recent_activities);
          off_hours_score = calculate_off_hours_score ub uid (resolve_activity_hour a);
          process_suspicious_score =
            (if suspicious d \<or> list_ex (\<lambda>kw. sublist kw (lower (process_name d)))
                   [''tor'', ''vpn'', ''remote'', ''ssh'', ''ftp'', ''wireshark'', ''nmap'']
             then 1 else 0);
          rapid_activity_score =
            calculate_rapid_activity_score ub now uid recent_activities (activity_type a);
          pattern_deviation_score = calculate_pattern_deviation ub uid a recent_activities;
          temporal_anomaly_score = calculate_temporal_anomaly ub uid a recent_activities
      in [file_size, real file_count, real sensitive_count, real delete_count, data_transfer,
          external_conns, email_attachment, real external_emails, off_hours_score,
          process_suspicious_score, rapid_activity_score, pattern_deviation_score,
          temporal_anomaly_score])"

text \<open>
  The fitted models are library objects, not code of this repository: they are parameters.
  \<open>isolation_forest\<close> stands for the scaler followed by \<^verbatim>\<open>predict\<close> and
  \<^verbatim>\<open>score_samples\<close> (\<open>Inl\<close> is an exception raised by the library, with its message),
  \<open>anomaly_scorer\<close> for the regressor (\<open>None\<close> is the exception that the bare
  \<^verbatim>\<open>except\<close> swallows), \<open>explain\<close> for the text built by
  \<^verbatim>\<open>_generate_explanation\<close>, whose number formatting is not modelled.
  scikit-learn's \<^verbatim>\<open>IsolationForest.score_samples\<close> is the negated anomaly score of the
  isolation-forest algorithm and lies in the interval from -1 to 0.
\<close>

record ml_models =
  isolation_forest :: "real list \<Rightarrow> string + (int \<times> real)"
  anomaly_scorer :: "real list \<Rightarrow> real option"
  explain :: "activity \<Rightarrow> real list \<Rightarrow> real \<Rightarrow> real \<Rightarrow> string"

definition pattern_boost :: "activity \<Rightarrow> activity list \<Rightarrow> real" where
  "pattern_boost a recent_activities =
     (let d = details a;
          h = resolve_activity_hour a;
          is_actually_off_hours = (off_hours d \<or> h < 7 \<or> h \<ge> 19)
      in (if size_mb d > 50 \<or> file_size_mb d > 50 then 0.15 else 0)
       + (if sensitive d then 0.20 else 0)
       + (if external d \<and> attachment_size_mb d > 10 then 0.25 else 0)
       + (if is_actually_off_hours then 0.15 else 0)
       + (if suspicious d \<or> list_ex (\<lambda>kw. sublist kw (lower (process_name d)))
                [''tor'', ''vpn'', ''ssh'', ''nmap'', ''wireshark'']
          then 0.20 else 0)
       + (if length (filter (\<lambda>x. activity_type x = activity_type a) recent_activities) \<ge> 10
          then 0.15 else 0))"

text \<open>The feature vector that \<^verbatim>\<open>detect_anomaly\<close> scores: the baseline is updated first.\<close>

definition detect_features ::
    "user_baselines \<Rightarrow> int \<Rightarrow> activity \<Rightarrow> string \<Rightarrow> activity list \<Rightarrow> real list" where
  "detect_features ub now a uid recent_activities =
     extract_ml_features (update_user_baseline ub now uid a) now a uid recent_activities"

definition detect_anomaly ::
    "ml_models \<Rightarrow> user_baselines \<Rightarrow> int \<Rightarrow> activity \<Rightarrow> string \<Rightarrow> activity list
      \<Rightarrow> user_baselines \<times> (string + bool \<times> real \<times> string)" where
  "detect_anomaly M ub now a uid recent_activities =
     (let ub' = update_user_baseline ub now uid a;
          features = detect_features ub now a uid recent_activities
      in case isolation_forest M features of
           Inl e \<Rightarrow> (ub', Inl e)
         | Inr (iso_pred, samples) \<Rightarrow>
             (let iso_score = - samples;
                  iso_score_norm = min (max (iso_score + 0.5) 0) 1;
                  anomaly_score = (case anomaly_scorer M features of
                                     Some s \<Rightarrow> min (max s 0) 1
                                   | None \<Rightarrow> iso_score_norm);
                  ml_score = min (iso_score_norm * 0.6 + anomaly_score * 0.4
                                   + pattern_boost a recent_activities) 0.95;
                  is_anomaly = (ml_score \<ge> 0.3 \<or> iso_pred = - 1)
              in (ub', Inr (is_anomaly, ml_score,
                            explain M a features ml_score iso_score_norm))))"

text \<open>The detector states that calls of \<^verbatim>\<open>detect_anomaly\<close> can produce from the empty map.\<close>

inductive reachable :: "user_baselines \<Rightarrow> bool" where
  init: "reachable Map.empty"
| step: "reachable ub \<Longrightarrow> reachable (fst (detect_anomaly M ub now a uid recent_activities))"

section \<open>Persisted state (backend/database.py)\<close>

text \<open>
  The hash of \<^verbatim>\<open>generate_fingerprint\<close> is SHA-256 over the JSON of the tuple below; the
  model keeps the tuple itself (two events have the same hash when the tuples are equal).
\<close>

type_synonym fingerprint =
  "string \<times> string \<times> (string \<times> string \<times> string \<times> string) \<times> (bool \<times> bool \<times> bool \<times> bool)"

definition generate_fingerprint :: "activity \<Rightarrow> string \<Rightarrow> fingerprint" where
  "generate_fingerprint a uid =
     (let d = details a
      in (uid, activity_type a,
          (take 100 (file_path d), process_name d, ip_address d, device_id d),
          (size_mb d > 50, sensitive d, external d, off_hours d)))"

record user_row =
  role :: string
  u_its_score :: real
  u_risk_level :: string
  u_last_updated :: int

record anomaly_fingerprint =
  fp_user_id :: string
  fp_anomaly_type :: string
  first_seen :: int
  last_seen :: int
  fp_count :: nat
  fp_suppressed_until :: "int option"
  escalated :: bool

record anomaly_alert =
  aa_alert_id :: nat
  aa_user_id :: string
  aa_timestamp :: int
  aa_anomaly_type :: string
  anomaly_fingerprint :: fingerprint
  ml_anomaly_score :: real
  confidence :: real
  aa_activity_details :: details
  aa_status :: string
  escalated_to_threat_id :: "nat option"
  aa_suppressed_until :: "int option"

record threat_alert =
  ta_alert_id :: nat
  ta_user_id :: string
  ta_timestamp :: int
  ta_its_score :: real
  ta_risk_level :: string
  ta_anomalies :: "string list"
  ta_explanation :: string
  ta_status :: string
  is_viewed :: bool

record threat =
  threat_id :: nat
  th_user_id :: string
  th_timestamp :: int
  threat_type :: string
  threat_fingerprint :: fingerprint
  ml_threat_score :: real
  th_its_score :: real
  th_risk_level :: string
  th_status :: string

record incident =
  incident_id :: nat
  in_user_id :: string
  in_timestamp :: int
  incident_type :: string
  severity :: string
  ml_incident_score :: real
  in_its_score :: real
  in_alert_id :: nat
  in_status :: string
  in_last_updated :: int

record historical_its_score =
  hs_user_id :: string
  hs_date :: int
  hs_its_score :: real
  hs_risk_level :: string
  hs_alert_count :: nat
  hs_activity_count :: nat

text \<open>
  The server: the tables the ingest handler touches, in insertion order, and the
  detector's in-memory baselines (the module-level \<^verbatim>\<open>ml_detector\<close>). Fingerprints are
  looked up by their unique hash only, so that table is a map. Free-text columns that no
  decision reads (descriptions, evidence) are left out.
\<close>

record server =
  users :: "string \<rightharpoonup> user_row"
  activity_logs :: "activity list"
  fingerprints :: "fingerprint \<rightharpoonup> anomaly_fingerprint"
  anomaly_alerts :: "anomaly_alert list"
  threat_alerts :: "threat_alert list"
  threats :: "threat list"
  incidents :: "incident list"
  historical_its_scores :: "historical_its_score list"
  user_baselines :: user_baselines

text \<open>\<^verbatim>\<open>order_by(desc(timestamp))\<close>; the order among equal timestamps is the database's.\<close>

definition order_by_desc :: "('a \<Rightarrow> int) \<Rightarrow> 'a list \<Rightarrow> 'a list" where
  "order_by_desc f xs = rev (sort_key f xs)"

section \<open>The ITS engine (\<^verbatim>\<open>ThreatDetectionEngine.calculate_its_score\<close>)\<close>

text \<open>
  The three fitted classifiers of \<^verbatim>\<open>ModelRegistry\<close>, each applied to the scaled
  features that \<^verbatim>\<open>extract_features\<close> computes from the user's role and activities, are
  parameters: the two class-1 probabilities and the outlier model's \<^verbatim>\<open>score_samples\<close>.
\<close>

record its_models =
  xgb_proba :: "string \<Rightarrow> activity list \<Rightarrow> real"
  rf_proba :: "string \<Rightarrow> activity list \<Rightarrow> real"
  iso_score_samples :: "string \<Rightarrow> activity list \<Rightarrow> real"

record score_data =
  its_score :: real
  risk_level :: string

text \<open>Python's \<^verbatim>\<open>round(x, 2)\<close>, up to the direction in which an exact tie is rounded.\<close>

definition round2 :: "real \<Rightarrow> real" where
  "round2 x = real_of_int (round (x * 100)) / 100"

definition its_risk_level :: "real \<Rightarrow> string" where
  "its_risk_level s =
     (if s \<ge> 75 then ''critical'' else if s \<ge> 50 then ''high''
      else if s \<ge> 25 then ''medium'' else ''low'')"

text \<open>
  The scoring of a non-empty list of activity rows, newest first
  (\<^verbatim>\<open>recent_activities_db\<close>): \<^verbatim>\<open>recent_activities_db[-1]\<close> is its last row and
  \<^verbatim>\<open>timedelta.days\<close> the floor of the difference in days.
\<close>

definition score_activities :: "its_models \<Rightarrow> int \<Rightarrow> string \<Rightarrow> activity list \<Rightarrow> score_data" where
  "score_activities E now user_role recent_activities_db =
     (let iso_score = - iso_score_samples E user_role recent_activities_db;
          iso_score_norm = min (max (iso_score + 0.5) 0) 1;
          raw = (xgb_proba E user_role recent_activities_db * 0.5
                 + rf_proba E user_role recent_activities_db * 0.3
                 + iso_score_norm * 0.2) * 100;
          activity_count = length recent_activities_db;
          score =
            (if raw < 8 \<and> activity_count > 0 then
               (let days_old = (now - timestamp (last recent_activities_db)) div 86400;
                    recency_factor = max 0.5 (1 - real_of_int days_old / 7);
                    baseline = min (8 + real activity_count * 0.2 * recency_factor) 20
                in max raw baseline)
             else raw)
      in \<lparr>its_score = round2 score, risk_level = its_risk_level score\<rparr>)"

definition calculate_its_score :: "its_models \<Rightarrow> server \<Rightarrow> int \<Rightarrow> string \<Rightarrow> score_data" where
  "calculate_its_score E db now uid =
     (case users db uid of
        None \<Rightarrow> \<lparr>its_score = 0, risk_level = ''low''\<rparr>
      | Some user \<Rightarrow>
          (let cutoff = now - 7 * 86400;
               recent_activities_db = order_by_desc timestamp
                 (filter (\<lambda>x. user_id x = uid \<and> timestamp x \<ge> cutoff) (activity_logs db))
           in if recent_activities_db = [] then
                (let all_activities_db = take 50 (order_by_desc timestamp
                       (filter (\<lambda>x. user_id x = uid) (activity_logs db)))
                 in if all_activities_db = [] then \<lparr>its_score = 5, risk_level = ''low''\<rparr>
                    else score_activities E now (role user) (take 20 all_activities_db))
              else score_activities E now (role user) recent_activities_db))"

section \<open>The ingest handler (\<^verbatim>\<open>ingest_activity\<close>, backend/main.py)\<close>

text \<open>
  A request either returns a JSON body or ends in \<^verbatim>\<open>raise HTTPException(status_code,
  detail)\<close>. The handler's \<^verbatim>\<open>except Exception as e\<close> sends \<^verbatim>\<open>detail=str(e)\<close>: the
  model keeps the exception \<open>e\<close> itself as the detail. Identifiers are the
  auto-incremented row numbers (no row is deleted by the handler); the \<^verbatim>\<open>ALT%05d\<close>
  text form is not modelled. All reads of \<^verbatim>\<open>datetime.now()\<close> within one request are
  the one instant \<open>now\<close>.
\<close>

datatype exn = HTTPException nat string | UnboundLocalError string | LibraryError string

record alert_payload =
  p_alert_id :: nat
  p_anomaly_alert_id :: nat
  p_ml_score :: real
  p_its_score :: real
  p_risk_level :: string
  p_anomalies :: "string list"
  p_explanation :: string
  p_timestamp :: int

record response =
  status :: string
  activity_logged :: bool
  reason :: "string option"
  alert :: "alert_payload option"
  r_its_score :: "real option"

datatype http_result = Raised nat exn | Returned response

definition ALERT_SUPPRESSION_HOURS :: int where
  "ALERT_SUPPRESSION_HOURS = 24"

definition THREAT_ESCALATION_THRESHOLD :: real where
  "THREAT_ESCALATION_THRESHOLD = 0.75"

definition first_row :: "'a list \<Rightarrow> 'a option" where
  "first_row xs = (case xs of [] \<Rightarrow> None | x # _ \<Rightarrow> Some x)"

definition determine_threat_type :: "string \<Rightarrow> string" where
  "determine_threat_type explanation =
     (let e = lower explanation
      in if sublist ''data transfer'' e \<or> sublist ''large'' e then ''data_exfiltration''
         else if sublist ''sensitive'' e then ''unauthorized_access''
         else if sublist ''sabotage'' e \<or> sublist ''delete'' e then ''sabotage''
         else if sublist ''off-hours'' e then ''policy_violation''
         else ''suspicious_activity'')"

definition determine_incident_type :: "activity \<Rightarrow> string \<Rightarrow> string" where
  "determine_incident_type a explanation =
     (let e = lower explanation
      in if sublist ''data'' e \<and> (sublist ''exfiltrat'' e \<or> sublist ''transfer'' e)
         then ''data_breach''
         else if sublist ''sabotage'' e \<or> sublist ''delete'' e then ''insider_attack''
         else if sublist ''unauthorized'' e \<or> sublist ''access'' e then ''unauthorized_access''
         else if sublist ''policy'' e \<or> sublist ''violation'' e then ''policy_violation''
         else if activity_type a = ''email'' \<and> external (details a) then ''data_breach''
         else if activity_type a = ''file_access'' \<and> sensitive (details a)
         then ''unauthorized_access''
         else ''suspicious_activity'')"

text \<open>\<^verbatim>\<open>_escalate_to_threat\<close>: Alert to Threat, marking the alert and its fingerprint.\<close>

definition escalate_to_threat ::
    "its_models \<Rightarrow> int \<Rightarrow> server \<Rightarrow> anomaly_alert \<Rightarrow> activity \<Rightarrow> real \<Rightarrow> string \<Rightarrow> server" where
  "escalate_to_threat E now db al a ml_score explanation =
     (case find (\<lambda>t. threat_fingerprint t = anomaly_fingerprint al) (threats db) of
        Some existing_threat \<Rightarrow> db
      | None \<Rightarrow>
          (let sd = calculate_its_score E db now (user_id a);
               t = \<lparr>threat_id = Suc (length (threats db)), th_user_id = user_id a,
                    th_timestamp = now, threat_type = determine_threat_type explanation,
                    threat_fingerprint = anomaly_fingerprint al, ml_threat_score = ml_score,
                    th_its_score = its_score sd, th_risk_level = risk_level sd,
                    th_status = ''open''\<rparr>;
               db1 = db\<lparr>threats := threats db @ [t]\<rparr>;
               db2 = db1\<lparr>anomaly_alerts :=
                       map (\<lambda>x. if aa_alert_id x = aa_alert_id al
                                 then x\<lparr>escalated_to_threat_id := Some (threat_id t),
                                        aa_status := ''escalated''\<rparr>
                                 else x) (anomaly_alerts db1)\<rparr>
           in case fingerprints db2 (anomaly_fingerprint al) of
                Some fp \<Rightarrow> db2\<lparr>fingerprints :=
                              (fingerprints db2)(anomaly_fingerprint al \<mapsto> fp\<lparr>escalated := True\<rparr>)\<rparr>
              | None \<Rightarrow> db2))"

text \<open>
  \<^verbatim>\<open>_auto_escalate_to_incident\<close>: an open incident of the same user from the last two
  hours is refreshed, otherwise one is created. The incident is returned.
\<close>

definition auto_escalate_to_incident ::
    "int \<Rightarrow> server \<Rightarrow> threat_alert \<Rightarrow> activity \<Rightarrow> score_data \<Rightarrow> string
      \<Rightarrow> server \<times> incident option" where
  "auto_escalate_to_incident now db ta a sd explanation =
     (let cutoff_time = now - 2 * 3600
      in case first_row (order_by_desc in_timestamp
                (filter (\<lambda>i. in_user_id i = user_id a \<and> in_timestamp i \<ge> cutoff_time
                              \<and> in_status i \<in> {''open'', ''in_progress''}) (incidents db))) of
           Some existing_incident \<Rightarrow>
             (let e1 = (if its_score sd > in_its_score existing_incident
                        then existing_incident\<lparr>in_its_score := its_score sd,
                               ml_incident_score := its_score sd / 100\<rparr>
                        else existing_incident);
                  e2 = (if ta_risk_level ta \<in> {''high'', ''critical''}
                           \<and> severity e1 \<notin> {''high'', ''critical''}
                        then e1\<lparr>severity := ta_risk_level ta\<rparr> else e1);
                  e3 = e2\<lparr>in_last_updated := now\<rparr>
              in (db\<lparr>incidents := map (\<lambda>i. if incident_id i = incident_id existing_incident
                                            then e3 else i) (incidents db)\<rparr>, Some e3))
         | None \<Rightarrow>
             (let sev = (if ta_risk_level ta \<in> {''low'', ''medium'', ''high'', ''critical''}
                         then ta_risk_level ta else its_risk_level (its_score sd));
                  inc = \<lparr>incident_id = Suc (length (incidents db)), in_user_id = user_id a,
                         in_timestamp = now,
                         incident_type = determine_incident_type a explanation,
                         severity = sev, ml_incident_score = its_score sd / 100,
                         in_its_score = its_score sd, in_alert_id = ta_alert_id ta,
                         in_status = ''open'', in_last_updated = now\<rparr>
              in (db\<lparr>incidents := incidents db @ [inc]\<rparr>, Some inc)))"

definition risk_level_of :: "real \<Rightarrow> real \<Rightarrow> string" where
  "risk_level_of ml_score its =
     (if ml_score \<ge> 0.8 \<or> its \<ge> 70 then ''critical''
      else if ml_score \<ge> 0.6 \<or> its \<ge> 50 then ''high''
      else if ml_score \<ge> 0.4 \<or> its \<ge> 30 then ''medium''
      else ''low'')"

definition should_escalate :: "string \<Rightarrow> real \<Rightarrow> real \<Rightarrow> bool" where
  "should_escalate rl ml_score its =
     (rl = ''critical'' \<or> (rl = ''high'' \<and> its \<ge> 50) \<or> (rl = ''high'' \<and> ml_score \<ge> 0.7)
      \<or> its \<ge> 65)"

definition anomalies_list_of :: "activity \<Rightarrow> string \<Rightarrow> string list" where
  "anomalies_list_of a explanation =
     (let e = lower explanation;
          l = (if sublist ''large file'' e \<or> sublist ''file'' (activity_type a)
               then [''Large file access''] else [])
            @ (if sublist ''sensitive'' e then [''Sensitive file access''] else [])
            @ (if sublist ''off-hours'' e \<or> sublist ''off hours'' e
               then [''Off-hours activity''] else [])
            @ (if sublist ''external'' e then [''External communication''] else [])
            @ (if sublist ''suspicious'' e then [''Suspicious activity''] else [])
      in if l = [] then [''Anomaly detected: '' @ activity_type a] else l)"

text \<open>
  The body of \<^verbatim>\<open>if is_anomaly and ml_score >= 0.3:\<close> when an alert with this
  fingerprint exists: the alert and the user's newest dashboard alert are refreshed.
  Neither \<^verbatim>\<open>threat_alert\<close> nor \<^verbatim>\<open>anomaly_alert\<close> is assigned on this path.
\<close>

definition refresh_existing_alert ::
    "int \<Rightarrow> server \<Rightarrow> activity \<Rightarrow> anomaly_alert \<Rightarrow> real \<Rightarrow> string \<Rightarrow> score_data \<Rightarrow> string
      \<Rightarrow> string list \<Rightarrow> server" where
  "refresh_existing_alert now db a existing_alert ml_score explanation sd rl anomalies_list =
     (let db1 = db\<lparr>anomaly_alerts :=
                   map (\<lambda>x. if aa_alert_id x = aa_alert_id existing_alert
                             then x\<lparr>aa_timestamp := now, ml_anomaly_score := ml_score,
                                    confidence := min (ml_score + 0.1) 1\<rparr>
                             else x) (anomaly_alerts db)\<rparr>
      in case first_row (order_by_desc ta_timestamp
                (filter (\<lambda>t. ta_user_id t = user_id a) (threat_alerts db1))) of
           Some existing_threat_alert \<Rightarrow>
             db1\<lparr>threat_alerts :=
                   map (\<lambda>t. if ta_alert_id t = ta_alert_id existing_threat_alert
                             then t\<lparr>ta_timestamp := now, ta_its_score := its_score sd,
                                    ta_risk_level := rl, ta_anomalies := anomalies_list,
                                    ta_explanation := explanation\<rparr>
                             else t) (threat_alerts db1)\<rparr>
         | None \<Rightarrow> db1)"

text \<open>
  The \<^verbatim>\<open>else\<close> branch: a new Tier-1 alert and its dashboard mirror are created, the
  fingerprint is suppressed for 24 hours, the two escalations run, the user's ITS is
  stored. This is the only path on which the names read by the final
  \<^verbatim>\<open>return {'status': 'alert_generated', ...}\<close> are all bound. Not modelled: the
  default explanation text, the note appended to the in-memory anomalies list after an
  auto-escalation, and database faults inside the two escalation helpers (which catch
  them and return None).
\<close>

definition create_new_alert ::
    "its_models \<Rightarrow> int \<Rightarrow> server \<Rightarrow> activity \<Rightarrow> user_row \<Rightarrow> fingerprint \<Rightarrow> real \<Rightarrow> string
      \<Rightarrow> score_data \<Rightarrow> string \<Rightarrow> string list \<Rightarrow> server \<times> http_result" where
  "create_new_alert E now db a user h ml_score explanation sd rl anomalies_list =
     (let anomaly_alert = \<lparr>aa_alert_id = Suc (length (anomaly_alerts db)),
             aa_user_id = user_id a, aa_timestamp = now, aa_anomaly_type = activity_type a,
             anomaly_fingerprint = h, ml_anomaly_score = ml_score, confidence = ml_score,
             aa_activity_details = details a, aa_status = ''new'',
             escalated_to_threat_id = None,
             aa_suppressed_until = Some (now + ALERT_SUPPRESSION_HOURS * 3600)\<rparr>;
          db1 = db\<lparr>anomaly_alerts := anomaly_alerts db @ [anomaly_alert]\<rparr>;
          threat_alert = \<lparr>ta_alert_id = Suc (length (threat_alerts db1)),
             ta_user_id = user_id a, ta_timestamp = now, ta_its_score = its_score sd,
             ta_risk_level = rl, ta_anomalies = anomalies_list, ta_explanation = explanation,
             ta_status = ''open'', is_viewed = False\<rparr>;
          db2 = db1\<lparr>threat_alerts := threat_alerts db1 @ [threat_alert]\<rparr>;
          db3 = (case fingerprints db2 h of
                   Some fp \<Rightarrow> db2\<lparr>fingerprints := (fingerprints db2)(h \<mapsto>
                                 fp\<lparr>fp_suppressed_until := aa_suppressed_until anomaly_alert\<rparr>)\<rparr>
                 | None \<Rightarrow> db2);
          db4 = (if ml_score \<ge> THREAT_ESCALATION_THRESHOLD
                 then escalate_to_threat E now db3 anomaly_alert a ml_score explanation
                 else db3);
          db5 = (if should_escalate rl ml_score (its_score sd) then
                   (case auto_escalate_to_incident now db4 threat_alert a sd explanation of
                      (db', Some inc) \<Rightarrow>
                        db'\<lparr>threat_alerts :=
                              map (\<lambda>t. if ta_alert_id t = ta_alert_id threat_alert
                                        then t\<lparr>ta_status := ''escalated_to_incident''\<rparr> else t)
                                  (threat_alerts db')\<rparr>
                    | (db', None) \<Rightarrow> db')
                 else db4);
          db6 = db5\<lparr>users := (users db5)(user_id a \<mapsto>
                   user\<lparr>u_its_score := its_score sd, u_risk_level := risk_level sd,
                        u_last_updated := now\<rparr>)\<rparr>
      in (db6, Returned \<lparr>status = ''alert_generated'', activity_logged = True, reason = None,
                alert = Some \<lparr>p_alert_id = ta_alert_id threat_alert,
                   p_anomaly_alert_id = aa_alert_id anomaly_alert, p_ml_score = ml_score,
                   p_its_score = its_score sd, p_risk_level = rl,
                   p_anomalies = anomalies_list, p_explanation = explanation,
                   p_timestamp = now\<rparr>,
                r_its_score = Some (its_score sd)\<rparr>))"

text \<open>
  From the \<^verbatim>\<open>if is_anomaly and ml_score >= 0.3:\<close> to the end of the \<^verbatim>\<open>try\<close>. The
  \<^verbatim>\<open>return\<close> of the \<^verbatim>\<open>alert_generated\<close> body stands after the \<^verbatim>\<open>if\<close>, at the
  indentation of the \<^verbatim>\<open>if\<close> itself: it runs on every path, and where
  \<^verbatim>\<open>threat_alert\<close> was never assigned its first read raises UnboundLocalError, which
  the handler turns into a 500 (nothing is uncommitted at that point, so the rollback
  changes nothing). The statements after that \<^verbatim>\<open>return\<close> (ITS update, daily snapshot,
  \<^verbatim>\<open>status: ok\<close>) cannot run.
\<close>

definition alert_stage ::
    "its_models \<Rightarrow> int \<Rightarrow> server \<Rightarrow> activity \<Rightarrow> user_row \<Rightarrow> fingerprint \<Rightarrow> bool \<Rightarrow> real
      \<Rightarrow> string \<Rightarrow> server \<times> http_result" where
  "alert_stage E now db a user h is_anomaly ml_score explanation =
     (if is_anomaly \<and> ml_score \<ge> 0.3 then
        (let existing_alert = find (\<lambda>x. anomaly_fingerprint x = h) (anomaly_alerts db);
             sd = calculate_its_score E db now (user_id a);
             rl = risk_level_of ml_score (its_score sd);
             anomalies_list = anomalies_list_of a explanation
         in case existing_alert of
              Some al \<Rightarrow>
                (refresh_existing_alert now db a al ml_score explanation sd rl anomalies_list,
                 Raised 500 (UnboundLocalError ''threat_alert''))
            | None \<Rightarrow>
                create_new_alert E now db a user h ml_score explanation sd rl anomalies_list)
      else (db, Raised 500 (UnboundLocalError ''threat_alert'')))"

text \<open>
  The handler. The activity is added and committed before the detector runs. Every
  exception raised inside the \<^verbatim>\<open>try\<close>, the 404 for an unknown user included, reaches
  the one \<^verbatim>\<open>except Exception\<close> handler, which rolls back what is uncommitted and
  raises \<^verbatim>\<open>HTTPException(status_code=500, detail=str(e))\<close>. The context handed to the
  detector is the user's last hour of stored activities, newest first, at most 100.
\<close>

definition ingest_activity ::
    "ml_models \<Rightarrow> its_models \<Rightarrow> int \<Rightarrow> server \<Rightarrow> activity \<Rightarrow> server \<times> http_result" where
  "ingest_activity M E now db a =
     (case users db (user_id a) of
        None \<Rightarrow> (db, Raised 500 (HTTPException 404 (''User '' @ user_id a @ '' not found'')))
      | Some user \<Rightarrow>
          (let db1 = db\<lparr>activity_logs := activity_logs db @ [a]\<rparr>;
               cutoff = now - 3600;
               recent_activities = take 100 (order_by_desc timestamp
                 (filter (\<lambda>x. user_id x = user_id a \<and> timestamp x \<ge> cutoff)
                    (activity_logs db1)));
               (ub, detected) = detect_anomaly M (user_baselines db1) now a (user_id a)
                                  recent_activities;
               db2 = db1\<lparr>user_baselines := ub\<rparr>
           in case detected of
                Inl e \<Rightarrow> (db2, Raised 500 (LibraryError e))
              | Inr (is_anomaly, ml_score, explanation) \<Rightarrow>
                  (let h = generate_fingerprint a (user_id a)
                   in case fingerprints db2 h of
                        Some fp \<Rightarrow>
                          (let fp1 = fp\<lparr>last_seen := now, fp_count := fp_count fp + 1\<rparr>;
                               db3 = db2\<lparr>fingerprints := (fingerprints db2)(h \<mapsto> fp1)\<rparr>
                           in if (case fp_suppressed_until fp1 of
                                    None \<Rightarrow> False | Some t \<Rightarrow> t > now)
                              then (db3, Returned \<lparr>status = ''suppressed'',
                                      activity_logged = True,
                                      reason = Some ''Duplicate anomaly suppressed'',
                                      alert = None, r_its_score = None\<rparr>)
                              else if escalated fp1
                              then (db3, Returned \<lparr>status = ''already_escalated'',
                                      activity_logged = True, reason = None,
                                      alert = None, r_its_score = None\<rparr>)
                              else alert_stage E now db3 a user h is_anomaly ml_score
                                     explanation)
                      | None \<Rightarrow>
                          (let fp0 = \<lparr>fp_user_id = user_id a,
                                      fp_anomaly_type = activity_type a, first_seen = now,
                                      last_seen = now, fp_count = 1,
                                      fp_suppressed_until = None, escalated = False\<rparr>;
                               db3 = db2\<lparr>fingerprints := (fingerprints db2)(h \<mapsto> fp0)\<rparr>
                           in alert_stage E now db3 a user h is_anomaly ml_score
                                explanation))))"

section \<open>The agent's transport (\<^verbatim>\<open>ActivityAggregator\<close>, agent/realtime\_monitor.py)\<close>

text \<open>
  The aggregator keeps the send queue \<^verbatim>\<open>alert_queue\<close> and the offline queue
  \<^verbatim>\<open>local_queue\<close>. The network is a parameter: \<open>net i a\<close> is the outcome of the
  \<open>i\<close>-th call of \<^verbatim>\<open>_send_activity\<close>, made for activity \<open>a\<close>; \<open>wire\<close> records the
  activities handed to \<^verbatim>\<open>session.post\<close>, in order. An activity is opaque here.
\<close>

datatype outcome = Replied string | HTTPError nat | ConnectionError | Timeout

record 'a aggregator =
  alert_queue :: "'a list"
  local_queue :: "'a list"
  connection_available :: bool
  sends :: nat
  wire :: "'a list"
  retried_from_queue :: nat
  activities_sent :: nat
  queued_locally :: nat
  anomalies_detected :: nat
  alerts_sent :: nat

text \<open>
  \<^verbatim>\<open>_send_activity\<close>: the JSON body's status on success (the body is a non-empty
  dictionary, so \<^verbatim>\<open>if result:\<close> holds), None on any failure; a connection error also
  clears \<^verbatim>\<open>connection_available\<close>. The pauses between sends are not modelled.
\<close>

definition send_activity ::
    "(nat \<Rightarrow> 'a \<Rightarrow> outcome) \<Rightarrow> 'a aggregator \<Rightarrow> 'a \<Rightarrow> 'a aggregator \<times> string option" where
  "send_activity net s a =
     (let s1 = s\<lparr>sends := sends s + 1, wire := wire s @ [a]\<rparr>
      in case net (sends s) a of
           Replied st \<Rightarrow> (s1, Some st)
         | HTTPError c \<Rightarrow> (s1, None)
         | ConnectionError \<Rightarrow> (s1\<lparr>connection_available := False\<rparr>, None)
         | Timeout \<Rightarrow> (s1, None))"

definition count_alert :: "string \<Rightarrow> 'a aggregator \<Rightarrow> 'a aggregator" where
  "count_alert st s =
     (if st = ''anomaly_alert_created''
      then s\<lparr>anomalies_detected := anomalies_detected s + 1, alerts_sent := alerts_sent s + 1\<rparr>
      else s)"

text \<open>The body of the loop over \<^verbatim>\<open>retry_activities\<close>.\<close>

definition retry_step :: "(nat \<Rightarrow> 'a \<Rightarrow> outcome) \<Rightarrow> 'a \<Rightarrow> 'a aggregator \<Rightarrow> 'a aggregator" where
  "retry_step net a s =
     (case send_activity net s a of
        (s1, Some st) \<Rightarrow>
          count_alert st (s1\<lparr>retried_from_queue := retried_from_queue s1 + 1,
                              activities_sent := activities_sent s1 + 1\<rparr>)
      | (s1, None) \<Rightarrow>
          if length (local_queue s1) < 1000
          then s1\<lparr>local_queue := local_queue s1 @ [a]\<rparr>
          else s1\<lparr>local_queue := tl (local_queue s1) @ [a]\<rparr>)"

text \<open>The body of the loop over \<^verbatim>\<open>activities_to_send\<close>.\<close>

definition send_step :: "(nat \<Rightarrow> 'a \<Rightarrow> outcome) \<Rightarrow> 'a \<Rightarrow> 'a aggregator \<Rightarrow> 'a aggregator" where
  "send_step net a s =
     (case send_activity net s a of
        (s1, Some st) \<Rightarrow>
          count_alert st (s1\<lparr>activities_sent := activities_sent s1 + 1,
                              connection_available := True\<rparr>)
      | (s1, None) \<Rightarrow>
          (let s2 = s1\<lparr>connection_available := False\<rparr>
           in if length (local_queue s2) < 1000
              then s2\<lparr>local_queue := local_queue s2 @ [a],
                      queued_locally := queued_locally s2 + 1\<rparr>
              else s2))"

definition send_activities_batch :: "(nat \<Rightarrow> 'a \<Rightarrow> outcome) \<Rightarrow> 'a aggregator \<Rightarrow> 'a aggregator" where
  "send_activities_batch net s =
     (let s1 = (if length (local_queue s) > 0
                then fold (retry_step net) (local_queue s) (s\<lparr>local_queue := []\<rparr>)
                else s)
      in if length (alert_queue s1) = 0 then s1
         else fold (send_step net) (alert_queue s1) (s1\<lparr>alert_queue := []\<rparr>))"

text \<open>
  An unreachable server, and an aggregator whose offline queue holds the 1000 events
  0, ..., 999 (oldest first) when event 1000 is waiting to be sent.
\<close>

definition offline :: "nat \<Rightarrow> 'a \<Rightarrow> outcome" where
  "offline i a = ConnectionError"

definition full_aggregator :: "nat aggregator" where
  "full_aggregator = \<lparr>alert_queue = [1000], local_queue = [0..<1000],
     connection_available = False, sends = 0, wire = [], retried_from_queue = 0,
     activities_sent = 0, queued_locally = 1000, anomalies_detected = 0, alerts_sent = 0\<rparr>"

text \<open>Sample inputs: the first event of scenario 4 of the specification (user U050, 23:00).\<close>

definition no_details :: details where
  "no_details = \<lparr>size_mb = 0, file_size_mb = 0, sensitive = False, action = [],
     data_sent_mb = 0, attachment_size_mb = 0, external_connections = 0, external = False,
     activity_hour = None, logon_hour = None, suspicious = False, process_name = [],
     off_hours = False, file_path = [], ip_address = [], device_id = []\<rparr>"

definition logon_at_23 :: activity where
  "logon_at_23 = \<lparr>user_id = ''U050'', timestamp = 82800, activity_type = ''logon'',
     details = no_details\<lparr>activity_hour := Some 23, logon_hour := Some 23, off_hours := True\<rparr>\<rparr>"

text \<open>
  A model whose outlier score follows feature 9 (off-hours), from -0.1 at 0 to -0.9 at 1,
  with an untrained regressor.
\<close>

definition off_hours_model :: ml_models where
  "off_hours_model = \<lparr>isolation_forest = (\<lambda>f. Inr (1, - (1 / 10 + 8 / 10 * (f ! 8)))),
     anomaly_scorer = (\<lambda>f. None), explain = (\<lambda>a f s i. [])\<rparr>"

text \<open>
  A server with the one user U002, a working-hours logon, and the large external email
  of scenario 1 of the specification (14:02, 120 MB attachment).
\<close>

definition office :: server where
  "office = \<lparr>users = [''U002'' \<mapsto> \<lparr>role = ''Developer'', u_its_score = 0,
                  u_risk_level = ''low'', u_last_updated = 0\<rparr>],
     activity_logs = [], fingerprints = Map.empty, anomaly_alerts = [], threat_alerts = [],
     threats = [], incidents = [], historical_its_scores = [], user_baselines = Map.empty\<rparr>"


definition big_email :: activity where
  "big_email = \<lparr>user_id = ''U002'', timestamp = 50520, activity_type = ''email'',
     details = no_details\<lparr>external := True, attachment_size_mb := 120,
                 activity_hour := Some 14\<rparr>\<rparr>"

text \<open>
  Fitted models for the samples, with outputs inside the library's ranges: an outlier
  model that gives every point the score -0.1, and ITS classifiers with class-1
  probability 0 and outlier score -0.1.
\<close>

definition alert_model :: ml_models where
  "alert_model = \<lparr>isolation_forest = (\<lambda>f. Inr (1, - 1 / 10)),
     anomaly_scorer = (\<lambda>f. None), explain = (\<lambda>a f s i. [])\<rparr>"

definition sample_its :: its_models where
  "sample_its = \<lparr>xgb_proba = (\<lambda>r acts. 0), rf_proba = (\<lambda>r acts. 0),
     iso_score_samples = (\<lambda>r acts. - 1 / 10)\<rparr>"

text \<open>The count stored for hour \<open>h\<close> in a user's hour histogram (0 when absent).\<close>

definition freq_at :: "user_baselines \<Rightarrow> string \<Rightarrow> int \<Rightarrow> nat" where
  "freq_at ub uid h = (case ub uid of None \<Rightarrow> 0 | Some b \<Rightarrow> get_or (hour_frequency b) h 0)"

section \<open>Properties of the detector\<close>

lemma fst_detect_anomaly:
  "fst (detect_anomaly M ub now a uid r) = update_user_baseline ub now uid a"
  by (simp add: detect_anomaly_def Let_def split: sum.splits prod.splits)

lemma update_keeps_sequences:
  assumes "\<And>u b. ub u = Some b \<Longrightarrow> typical_sequences b = []"
    and "update_user_baseline ub now uid a u = Some b"
  shows "typical_sequences b = []"
proof (cases "u = uid")
  case False
  with assms show ?thesis by (simp add: update_user_baseline_def Let_def)
next
  case True
  with assms show ?thesis
    by (cases "ub uid") (auto simp: update_user_baseline_def Let_def new_baseline_def)
qed

lemma reachable_sequences_empty:
  "reachable ub \<Longrightarrow> ub u = Some b \<Longrightarrow> typical_sequences b = []"
proof (induction arbitrary: u b rule: reachable.induct)
  case init
  then show ?case by simp
next
  case (step ub M now a uid r)
  from step.prems have "update_user_baseline ub now uid a u = Some b"
    by (simp add: fst_detect_anomaly)
  with step.IH show ?case by (rule update_keeps_sequences)
qed

lemma temporal_anomaly_zero:
  "reachable ub \<Longrightarrow> calculate_temporal_anomaly ub uid a r = 0"
  by (cases "ub uid") (auto simp: calculate_temporal_anomaly_def dest: reachable_sequences_empty)

text \<open>
  C9. In every detector state that calls of \<^verbatim>\<open>detect_anomaly\<close> can reach from the
  initial empty baseline map, \<^verbatim>\<open>_calculate_temporal_anomaly\<close> returns 0 for every user,
  activity and context, and so does feature 13 of the vector that \<^verbatim>\<open>detect_anomaly\<close>
  scores: \<open>typical_sequences\<close> starts empty and no update touches it.
\<close>

theorem temporal_anomaly_score_always_zero:
  assumes "reachable ub"
  shows "calculate_temporal_anomaly ub uid a recent_activities = 0
       \<and> detect_features ub now a uid recent_activities ! 12 = 0
       \<and> length (detect_features ub now a uid recent_activities) = 13"
proof -
  have "reachable (fst (detect_anomaly off_hours_model ub now a uid recent_activities))"
    using assms by (rule reachable.step)
  then have "reachable (update_user_baseline ub now uid a)"
    by (simp add: fst_detect_anomaly)
  then have "calculate_temporal_anomaly (update_user_baseline ub now uid a) uid a recent_activities = 0"
    by (rule temporal_anomaly_zero)
  then show ?thesis
    using assms by (simp add: temporal_anomaly_zero detect_features_def extract_ml_features_def Let_def)
qed

theorem temporal_anomaly_score_always_zero_witness:
  "reachable (fst (detect_anomaly off_hours_model Map.empty (82800) logon_at_23 ''U050'' []))
   \<and> calculate_temporal_anomaly
       (fst (detect_anomaly off_hours_model Map.empty (82800) logon_at_23 ''U050'' []))
       ''U050'' logon_at_23 [logon_at_23] = 0
   \<and> detect_features
       (fst (detect_anomaly off_hours_model Map.empty (82800) logon_at_23 ''U050'' []))
       (82860) logon_at_23 ''U050'' [logon_at_23] ! 12 = 0"
proof -
  have r: "reachable (fst (detect_anomaly off_hours_model Map.empty (82800) logon_at_23 ''U050'' []))"
    by (rule reachable.step) (rule reachable.init)
  show ?thesis
    using r temporal_anomaly_score_always_zero [OF r] by simp
qed

section \<open>Properties of the ingest handler\<close>

lemma escalate_to_threat_keeps:
  "activity_logs (escalate_to_threat E now db al a ml ex) = activity_logs db"
  "users (escalate_to_threat E now db al a ml ex) = users db"
  "threat_alerts (escalate_to_threat E now db al a ml ex) = threat_alerts db"
  "incidents (escalate_to_threat E now db al a ml ex) = incidents db"
  "historical_its_scores (escalate_to_threat E now db al a ml ex) = historical_its_scores db"
  "user_baselines (escalate_to_threat E now db al a ml ex) = user_baselines db"
  "length (anomaly_alerts (escalate_to_threat E now db al a ml ex)) = length (anomaly_alerts db)"
  by (simp_all add: escalate_to_threat_def Let_def split: option.splits)

lemma escalate_to_threat_fingerprint:
  "fingerprints db h = Some fp \<Longrightarrow>
   \<exists>fp'. fingerprints (escalate_to_threat E now db al a ml ex) h = Some fp'
     \<and> fp_suppressed_until fp' = fp_suppressed_until fp"
  by (auto simp add: escalate_to_threat_def Let_def split: option.splits)

lemma auto_escalate_keeps:
  "activity_logs (fst (auto_escalate_to_incident now db ta a sd ex)) = activity_logs db"
  "users (fst (auto_escalate_to_incident now db ta a sd ex)) = users db"
  "threat_alerts (fst (auto_escalate_to_incident now db ta a sd ex)) = threat_alerts db"
  "anomaly_alerts (fst (auto_escalate_to_incident now db ta a sd ex)) = anomaly_alerts db"
  "fingerprints (fst (auto_escalate_to_incident now db ta a sd ex)) = fingerprints db"
  "threats (fst (auto_escalate_to_incident now db ta a sd ex)) = threats db"
  "historical_its_scores (fst (auto_escalate_to_incident now db ta a sd ex)) = historical_its_scores db"
  "user_baselines (fst (auto_escalate_to_incident now db ta a sd ex)) = user_baselines db"
  by (simp_all add: auto_escalate_to_incident_def Let_def split: option.splits)

lemma auto_escalate_returns:
  "\<exists>inc. snd (auto_escalate_to_incident now db ta a sd ex) = Some inc"
  by (simp add: auto_escalate_to_incident_def Let_def split: option.splits)

lemma first_row_mem: "first_row xs = Some x \<Longrightarrow> x \<in> set xs"
  by (cases xs) (auto simp: first_row_def)

lemma map_replace_mem:
  "e \<in> set xs \<Longrightarrow> g \<in> set (map (\<lambda>i. if k i = k e then g else i) xs)"
  by (induction xs) auto

lemma auto_escalate_incident:
  "\<exists>i\<in>set (incidents (fst (auto_escalate_to_incident now db ta a sd ex))).
      in_user_id i = user_id a \<and> in_last_updated i = now"
proof (cases "first_row (order_by_desc in_timestamp
                (filter (\<lambda>i. in_user_id i = user_id a \<and> in_timestamp i \<ge> now - 2 * 3600
                              \<and> in_status i \<in> {''open'', ''in_progress''}) (incidents db)))")
  case None
  then show ?thesis by (simp add: auto_escalate_to_incident_def Let_def)
next
  case (Some e)
  then have mem: "e \<in> set (incidents db)" and usr: "in_user_id e = user_id a"
    by (auto dest!: first_row_mem simp: order_by_desc_def)
  define e1 where "e1 = (if its_score sd > in_its_score e
            then e\<lparr>in_its_score := its_score sd, ml_incident_score := its_score sd / 100\<rparr>
            else e)"
  define e2 where "e2 = (if ta_risk_level ta \<in> {''high'', ''critical''}
                           \<and> severity e1 \<notin> {''high'', ''critical''}
                        then e1\<lparr>severity := ta_risk_level ta\<rparr> else e1)"
  define e3 where "e3 = e2\<lparr>in_last_updated := now\<rparr>"
  have p: "in_user_id e3 = user_id a \<and> in_last_updated e3 = now"
    using usr by (simp add: e3_def e2_def e1_def)
  have "incidents (fst (auto_escalate_to_incident now db ta a sd ex))
          = map (\<lambda>i. if incident_id i = incident_id e then e3 else i) (incidents db)"
    using Some unfolding auto_escalate_to_incident_def e3_def e2_def e1_def Let_def
    by simp
  moreover have "e3 \<in> set (map (\<lambda>i. if incident_id i = incident_id e then e3 else i) (incidents db))"
    using mem by (rule map_replace_mem)
  ultimately show ?thesis using p by metis
qed



lemma create_new_alert_keeps:
  "activity_logs (fst (create_new_alert E now db a user h ml ex sd rl l)) = activity_logs db"
  "historical_its_scores (fst (create_new_alert E now db a user h ml ex sd rl l)) = historical_its_scores db"
  "user_baselines (fst (create_new_alert E now db a user h ml ex sd rl l)) = user_baselines db"
  by (simp_all add: create_new_alert_def Let_def split_beta escalate_to_threat_keeps
        auto_escalate_keeps split: option.splits)


lemma create_new_alert_returns:
  "snd (create_new_alert E now db a user h ml ex sd rl l) =
     Returned \<lparr>status = ''alert_generated'', activity_logged = True, reason = None,
        alert = Some \<lparr>p_alert_id = Suc (length (threat_alerts db)),
           p_anomaly_alert_id = Suc (length (anomaly_alerts db)), p_ml_score = ml,
           p_its_score = its_score sd, p_risk_level = rl, p_anomalies = l,
           p_explanation = ex, p_timestamp = now\<rparr>,
        r_its_score = Some (its_score sd)\<rparr>"
  by (simp add: create_new_alert_def Let_def)

lemma create_new_alert_users:
  "users (fst (create_new_alert E now db a user h ml ex sd rl l)) =
     (users db)(user_id a \<mapsto> user\<lparr>u_its_score := its_score sd, u_risk_level := risk_level sd,
        u_last_updated := now\<rparr>)"
  by (simp add: create_new_alert_def Let_def split_beta escalate_to_threat_keeps
        auto_escalate_keeps split: option.splits)

lemma create_new_alert_fingerprint:
  assumes "fingerprints db h = Some fp"
  shows "\<exists>fp'. fingerprints (fst (create_new_alert E now db a user h ml ex sd rl l)) h = Some fp'
     \<and> fp_suppressed_until fp' = Some (now + 24 * 3600)"
proof -
  define al :: anomaly_alert where "al = \<lparr>aa_alert_id = Suc (length (anomaly_alerts db)),
             aa_user_id = user_id a, aa_timestamp = now, aa_anomaly_type = activity_type a,
             anomaly_fingerprint = h, ml_anomaly_score = ml, confidence = ml,
             aa_activity_details = details a, aa_status = ''new'',
             escalated_to_threat_id = None,
             aa_suppressed_until = Some (now + ALERT_SUPPRESSION_HOURS * 3600)\<rparr>"
  define db3 where "db3 = db\<lparr>anomaly_alerts := anomaly_alerts db @ [al],
      threat_alerts := threat_alerts db @ [\<lparr>ta_alert_id = Suc (length (threat_alerts db)),
             ta_user_id = user_id a, ta_timestamp = now, ta_its_score = its_score sd,
             ta_risk_level = rl, ta_anomalies = l, ta_explanation = ex,
             ta_status = ''open'', is_viewed = False\<rparr>],
      fingerprints := (fingerprints db)(h \<mapsto> fp\<lparr>fp_suppressed_until := Some (now + 24 * 3600)\<rparr>)\<rparr>"
  have h3: "fingerprints db3 h = Some (fp\<lparr>fp_suppressed_until := Some (now + 24 * 3600)\<rparr>)"
    by (simp add: db3_def)
  have afp: "anomaly_fingerprint al = h" by (simp add: al_def)
  have "\<exists>fp'. fingerprints (if ml \<ge> THREAT_ESCALATION_THRESHOLD
                 then escalate_to_threat E now db3 al a ml ex else db3) h = Some fp'
     \<and> fp_suppressed_until fp' = Some (now + 24 * 3600)"
    using escalate_to_threat_fingerprint [OF h3, of E now al a ml ex] h3 by auto
  moreover have "fingerprints (fst (create_new_alert E now db a user h ml ex sd rl l))
        = fingerprints (if ml \<ge> THREAT_ESCALATION_THRESHOLD
                 then escalate_to_threat E now db3 al a ml ex else db3)"
    using assms
    by (simp add: create_new_alert_def Let_def split_beta auto_escalate_keeps
         db3_def al_def ALERT_SUPPRESSION_HOURS_def split: option.splits)
  ultimately show ?thesis by simp
qed

lemma auto_escalate_not_None [simp]:
  "snd (auto_escalate_to_incident now db ta a sd ex) \<noteq> None"
  using auto_escalate_returns [of now db ta a sd ex] by auto

lemma escalate_to_threat_alerts:
  "\<exists>f. anomaly_alerts (escalate_to_threat E now db al a ml ex) = map f (anomaly_alerts db)
      \<and> (\<forall>x. anomaly_fingerprint (f x) = anomaly_fingerprint x
             \<and> aa_suppressed_until (f x) = aa_suppressed_until x)"
proof (cases "find (\<lambda>t. threat_fingerprint t = anomaly_fingerprint al) (threats db)")
  case (Some t)
  then have "anomaly_alerts (escalate_to_threat E now db al a ml ex) = map (\<lambda>x. x) (anomaly_alerts db)"
    by (simp add: escalate_to_threat_def)
  then show ?thesis by blast
next
  case None
  let ?f = "\<lambda>x. if aa_alert_id x = aa_alert_id al
                 then x\<lparr>escalated_to_threat_id := Some (Suc (length (threats db))),
                        aa_status := ''escalated''\<rparr>
                 else x"
  have "anomaly_alerts (escalate_to_threat E now db al a ml ex) = map ?f (anomaly_alerts db)"
    using None by (simp add: escalate_to_threat_def Let_def split: option.splits)
  moreover have "\<forall>x. anomaly_fingerprint (?f x) = anomaly_fingerprint x
             \<and> aa_suppressed_until (?f x) = aa_suppressed_until x"
    by simp
  ultimately show ?thesis by blast
qed

lemma create_new_alert_alerts:
  "length (anomaly_alerts (fst (create_new_alert E now db a user h ml ex sd rl l)))
     = Suc (length (anomaly_alerts db))
   \<and> anomaly_fingerprint (last (anomaly_alerts (fst (create_new_alert E now db a user h ml ex sd rl l)))) = h
   \<and> aa_suppressed_until (last (anomaly_alerts (fst (create_new_alert E now db a user h ml ex sd rl l))))
       = Some (now + 24 * 3600)"
proof -
  define al :: anomaly_alert where "al = \<lparr>aa_alert_id = Suc (length (anomaly_alerts db)),
             aa_user_id = user_id a, aa_timestamp = now, aa_anomaly_type = activity_type a,
             anomaly_fingerprint = h, ml_anomaly_score = ml, confidence = ml,
             aa_activity_details = details a, aa_status = ''new'',
             escalated_to_threat_id = None,
             aa_suppressed_until = Some (now + ALERT_SUPPRESSION_HOURS * 3600)\<rparr>"
  have "\<exists>db3. anomaly_alerts db3 = anomaly_alerts db @ [al]
     \<and> anomaly_alerts (fst (create_new_alert E now db a user h ml ex sd rl l))
        = anomaly_alerts (if ml \<ge> THREAT_ESCALATION_THRESHOLD
                 then escalate_to_threat E now db3 al a ml ex else db3)"
    apply (cases "fingerprints db h")
     apply (rule exI [of _ "db\<lparr>anomaly_alerts := anomaly_alerts db @ [al],
      threat_alerts := threat_alerts db @ [\<lparr>ta_alert_id = Suc (length (threat_alerts db)),
             ta_user_id = user_id a, ta_timestamp = now, ta_its_score = its_score sd,
             ta_risk_level = rl, ta_anomalies = l, ta_explanation = ex,
             ta_status = ''open'', is_viewed = False\<rparr>]\<rparr>"])
     apply (simp add: create_new_alert_def Let_def split_beta auto_escalate_keeps al_def
         split: option.splits)
    subgoal for fp
      apply (rule exI [of _ "db\<lparr>anomaly_alerts := anomaly_alerts db @ [al],
      threat_alerts := threat_alerts db @ [\<lparr>ta_alert_id = Suc (length (threat_alerts db)),
             ta_user_id = user_id a, ta_timestamp = now, ta_its_score = its_score sd,
             ta_risk_level = rl, ta_anomalies = l, ta_explanation = ex,
             ta_status = ''open'', is_viewed = False\<rparr>],
      fingerprints := (fingerprints db)(h \<mapsto> fp\<lparr>fp_suppressed_until := Some (now + ALERT_SUPPRESSION_HOURS * 3600)\<rparr>)\<rparr>"])
      apply (simp add: create_new_alert_def Let_def split_beta auto_escalate_keeps al_def
         split: option.splits)
      done
    done
  then obtain db3 where d3: "anomaly_alerts db3 = anomaly_alerts db @ [al]"
    and eq: "anomaly_alerts (fst (create_new_alert E now db a user h ml ex sd rl l))
        = anomaly_alerts (if ml \<ge> THREAT_ESCALATION_THRESHOLD
                 then escalate_to_threat E now db3 al a ml ex else db3)"
    by blast
  obtain f where f: "anomaly_alerts (escalate_to_threat E now db3 al a ml ex) = map f (anomaly_alerts db3)"
      "\<And>x. anomaly_fingerprint (f x) = anomaly_fingerprint x"
      "\<And>x. aa_suppressed_until (f x) = aa_suppressed_until x"
    using escalate_to_threat_alerts [of E now db3 al a ml ex] by blast
  show ?thesis
    using eq d3 f by (simp add: al_def ALERT_SUPPRESSION_HOURS_def)
qed

lemma create_new_alert_threat_alerts:
  "threat_alerts (fst (create_new_alert E now db a user h ml ex sd rl l)) =
     map (\<lambda>t. if should_escalate rl ml (its_score sd) \<and> ta_alert_id t = Suc (length (threat_alerts db))
               then t\<lparr>ta_status := ''escalated_to_incident''\<rparr> else t)
       (threat_alerts db @ [\<lparr>ta_alert_id = Suc (length (threat_alerts db)),
             ta_user_id = user_id a, ta_timestamp = now, ta_its_score = its_score sd,
             ta_risk_level = rl, ta_anomalies = l, ta_explanation = ex,
             ta_status = ''open'', is_viewed = False\<rparr>])"
  by (simp add: create_new_alert_def Let_def split_beta escalate_to_threat_keeps
        auto_escalate_keeps split: option.splits)

lemma create_new_alert_incidents_unchanged:
  "\<not> should_escalate rl ml (its_score sd) \<Longrightarrow>
   incidents (fst (create_new_alert E now db a user h ml ex sd rl l)) = incidents db"
  by (simp add: create_new_alert_def Let_def split_beta escalate_to_threat_keeps
        split: option.splits)

lemma create_new_alert_incident:
  "should_escalate rl ml (its_score sd) \<Longrightarrow>
   \<exists>i\<in>set (incidents (fst (create_new_alert E now db a user h ml ex sd rl l))).
      in_user_id i = user_id a \<and> in_last_updated i = now"
  by (simp add: create_new_alert_def Let_def split_beta auto_escalate_incident
        split: option.splits)

lemma alert_stage_returned:
  assumes "alert_stage E now db a user h b ml ex = (db', Returned r)"
  shows "b \<and> 0.3 \<le> ml
    \<and> create_new_alert E now db a user h ml ex (calculate_its_score E db now (user_id a))
          (risk_level_of ml (its_score (calculate_its_score E db now (user_id a))))
          (anomalies_list_of a ex) = (db', Returned r)"
  using assms by (auto simp: alert_stage_def Let_def split: if_splits option.splits)



lemma ingest_returned_fields:
  assumes "ingest_activity M E now db a = (db', Returned r)"
  shows "(status r = ''alert_generated'' \<and> (\<exists>x p. r_its_score r = Some x \<and> alert r = Some p \<and> p_its_score p = x))
       \<or> (status r = ''suppressed'' \<and> r_its_score r = None \<and> alert r = None
            \<and> reason r = Some ''Duplicate anomaly suppressed'')
       \<or> (status r = ''already_escalated'' \<and> r_its_score r = None \<and> alert r = None
            \<and> reason r = None)"
proof -
  have cr: "\<And>E now db a user h ml ex sd rl l db'.
     create_new_alert E now db a user h ml ex sd rl l = (db', Returned r) \<Longrightarrow>
       status r = ''alert_generated'' \<and> (\<exists>x p. r_its_score r = Some x \<and> alert r = Some p \<and> p_its_score p = x)"
  proof -
    fix E now db a user h ml ex sd rl l db'
    assume "create_new_alert E now db a user h ml ex sd rl l = (db', Returned r)"
    then have "snd (create_new_alert E now db a user h ml ex sd rl l) = Returned r" by simp
    then show "status r = ''alert_generated'' \<and> (\<exists>x p. r_its_score r = Some x \<and> alert r = Some p \<and> p_its_score p = x)"
      by (auto simp add: create_new_alert_returns)
  qed
  show ?thesis
    using assms
    by (auto simp: ingest_activity_def Let_def split_beta
       split: option.splits sum.splits prod.splits if_splits dest!: alert_stage_returned cr)
qed

lemma detect_not_raised:
  assumes "\<And>f. \<exists>p. isolation_forest M f = Inr p"
  shows "snd (detect_anomaly M ub now a uid r) \<noteq> Inl e"
proof -
  obtain p where "isolation_forest M (detect_features ub now a uid r) = Inr p"
    using assms by blast
  then show ?thesis
    by (cases p) (simp add: detect_anomaly_def Let_def)
qed

lemma ingest_alert_generated:
  assumes "ingest_activity M E now db a = (db', Returned r)"
    and "status r = ''alert_generated''"
  shows "\<exists>user fpm ml ex dbm. users db (user_id a) = Some user \<and> 0.3 \<le> ml
     \<and> snd (detect_anomaly M (user_baselines db) now a (user_id a)
              (take 100 (order_by_desc timestamp
                 (filter (\<lambda>x. user_id x = user_id a \<and> timestamp x \<ge> now - 3600)
                    (activity_logs db @ [a]))))) = Inr (True, ml, ex)
     \<and> dbm = db\<lparr>activity_logs := activity_logs db @ [a],
                 user_baselines := update_user_baseline (user_baselines db) now (user_id a) a,
                 fingerprints := (fingerprints db)(generate_fingerprint a (user_id a) \<mapsto> fpm)\<rparr>
     \<and> create_new_alert E now dbm a user (generate_fingerprint a (user_id a)) ml ex
          (calculate_its_score E dbm now (user_id a))
          (risk_level_of ml (its_score (calculate_its_score E dbm now (user_id a))))
          (anomalies_list_of a ex) = (db', Returned r)"
  using assms
  by (auto simp: ingest_activity_def Let_def split_beta fst_detect_anomaly
       split: option.splits sum.splits prod.splits if_splits dest!: alert_stage_returned)

lemma ingest_suppressed:
  assumes "\<And>f. \<exists>p. isolation_forest M f = Inr p"
    and "users db (user_id a) = Some user"
    and "fingerprints db (generate_fingerprint a (user_id a)) = Some fp"
    and "fp_suppressed_until fp = Some t" and "now < t"
  shows "ingest_activity M E now db a =
     (db\<lparr>activity_logs := activity_logs db @ [a],
         user_baselines := update_user_baseline (user_baselines db) now (user_id a) a,
         fingerprints := (fingerprints db)(generate_fingerprint a (user_id a) \<mapsto>
            fp\<lparr>last_seen := now, fp_count := fp_count fp + 1\<rparr>)\<rparr>,
      Returned \<lparr>status = ''suppressed'', activity_logged = True,
         reason = Some ''Duplicate anomaly suppressed'', alert = None, r_its_score = None\<rparr>)"
  using assms(2-)
  by (simp add: ingest_activity_def Let_def split_beta fst_detect_anomaly
        detect_not_raised [OF assms(1)] split: sum.splits prod.splits)

lemma calculate_its_score_cong:
  assumes "users db = users db2" and "activity_logs db = activity_logs db2"
  shows "calculate_its_score E db now uid = calculate_its_score E db2 now uid"
  unfolding calculate_its_score_def assms by (rule refl)

section \<open>Claims about the detector and the ITS engine\<close>

lemma freq_at_update:
  "freq_at (update_user_baseline ub now uid a) uid h
     = freq_at ub uid h + (if h = hour_of now then 1 else 0)"
  by (cases "ub uid")
     (simp_all add: freq_at_def update_user_baseline_def Let_def get_or_def update_conv'
        new_baseline_def)

lemma first_event_off_hours:
  assumes "ub uid = None" and "resolve_activity_hour a < 7 \<or> resolve_activity_hour a \<ge> 19"
  shows "detect_features ub now a uid r ! 8
           = (if hour_of now = resolve_activity_hour a then 0 else 1)"
  using assms
  by (simp add: detect_features_def extract_ml_features_def Let_def update_user_baseline_def
      new_baseline_def calculate_off_hours_score_def get_or_def)

lemma logon_at_23_hour: "resolve_activity_hour logon_at_23 = 23"
  by (simp add: resolve_activity_hour_def hour_or_def logon_at_23_def no_details_def)

text \<open>
  C4. The first event ever observed for user U050, a logon at 23:00 flagged off-hours
  (scenario 4 of the specification), processed by \<^verbatim>\<open>detect_anomaly\<close> on a detector
  that holds no baseline for U050: the off-hours score (feature 9) is 0 when the server
  clock reads 23:xx and 1 when it reads 10:xx, never the 0.8 of the claim.
  \<^verbatim>\<open>detect_anomaly\<close> creates the baseline before it extracts the features, so the
  branch of \<^verbatim>\<open>_calculate_off_hours_score\<close> that returns 0.8 (last conjunct) is not
  the one taken.
\<close>

theorem first_event_off_hours_score_is_not_0_8:
  "detect_features Map.empty 82800 logon_at_23 ''U050'' [logon_at_23] ! 8 = 0
   \<and> detect_features Map.empty 36000 logon_at_23 ''U050'' [logon_at_23] ! 8 = 1
   \<and> calculate_off_hours_score Map.empty ''U050'' 23 = 0.8"
proof -
  have "hour_of 82800 = 23" and "hour_of 36000 = 10"
    by (simp_all add: hour_of_def)
  then show ?thesis
    by (simp add: first_event_off_hours logon_at_23_hour calculate_off_hours_score_def)
qed


text \<open>
  With an outlier score in the library's range (at most 0) the normalised score is at
  least 0.5. Then the detector flags every event with a score of at least 0.3, and the
  raw ITS is at least 10, so the engine's baseline floor (taken only below 8) is not
  applied.
\<close>

lemma pattern_boost_nonneg: "0 \<le> pattern_boost a r"
  by (simp add: pattern_boost_def Let_def)

lemma detect_anomaly_in_range:
  assumes "isolation_forest M (detect_features ub now a uid r) = Inr (pred, s)" and "s \<le> 0"
  shows "\<exists>ml ex. snd (detect_anomaly M ub now a uid r) = Inr (True, ml, ex) \<and> 0.3 \<le> ml"
proof -
  define n where "n = min (max (- s + 0.5) 0) 1"
  define sc where "sc = (case anomaly_scorer M (detect_features ub now a uid r) of
                           Some x \<Rightarrow> min (max x 0) 1 | None \<Rightarrow> n)"
  define ml where "ml = min (n * 0.6 + sc * 0.4 + pattern_boost a r) 0.95"
  have n: "0.5 \<le> n" using assms(2) by (simp add: n_def)
  have sc: "0 \<le> sc" using n by (simp add: sc_def split: option.splits)
  have "0.3 \<le> n * 0.6 + sc * 0.4 + pattern_boost a r"
    using n sc pattern_boost_nonneg [of a r] by simp
  then have ml: "0.3 \<le> ml" unfolding ml_def by simp
  have "snd (detect_anomaly M ub now a uid r)
      = Inr (0.3 \<le> ml \<or> pred = - 1, ml,
             explain M a (detect_features ub now a uid r) ml n)"
    by (simp only: detect_anomaly_def Let_def assms(1) n_def sc_def ml_def sum.case
          prod.case snd_conv)
  with ml have "snd (detect_anomaly M ub now a uid r)
      = Inr (True, ml, explain M a (detect_features ub now a uid r) ml n)"
    by simp
  with ml show ?thesis by blast
qed

lemma its_floor_not_applied:
  assumes "0 \<le> xgb_proba E r acts" and "0 \<le> rf_proba E r acts"
    and "iso_score_samples E r acts \<le> 0"
  shows "10 \<le> (xgb_proba E r acts * 0.5 + rf_proba E r acts * 0.3
             + min (max (- iso_score_samples E r acts + 0.5) 0) 1 * 0.2) * 100
     \<and> its_score (score_activities E now r acts)
         = round2 ((xgb_proba E r acts * 0.5 + rf_proba E r acts * 0.3
             + min (max (- iso_score_samples E r acts + 0.5) 0) 1 * 0.2) * 100)"
proof -
  define raw where "raw = (xgb_proba E r acts * 0.5 + rf_proba E r acts * 0.3
             + min (max (- iso_score_samples E r acts + 0.5) 0) 1 * 0.2) * 100"
  define b where "b = min (8 + real (length acts) * 0.2
                   * max 0.5 (1 - real_of_int ((now - timestamp (last acts)) div 86400) / 7)) 20"
  have n: "0.5 \<le> min (max (- iso_score_samples E r acts + 0.5) 0) 1"
    using assms(3) by simp
  have raw: "10 \<le> raw"
    unfolding raw_def using assms(1,2) n by simp
  have "its_score (score_activities E now r acts)
          = round2 (if raw < 8 \<and> length acts > 0 then max raw b else raw)"
    by (simp only: score_activities_def Let_def raw_def b_def score_data.select_convs)
  with raw show ?thesis unfolding raw_def [symmetric] by simp
qed

section \<open>Sample runs of the ingest handler\<close>


lemma big_email_sel:
  "user_id big_email = ''U002''" "timestamp big_email = 50520"
  "activity_type big_email = ''email''"
  by (simp_all add: big_email_def)

lemma detect_alert_email:
  "snd (detect_anomaly alert_model Map.empty 50520 big_email ''U002'' [big_email])
     = Inr (True, 0.85, [])"
  by (simp add: detect_anomaly_def alert_model_def Let_def pattern_boost_def big_email_def
       no_details_def resolve_activity_hour_def hour_or_def lower_def)











lemma its_after_email:
  assumes "users db = users office" and "activity_logs db = [big_email]"
  shows "calculate_its_score sample_its db 50520 ''U002'' = \<lparr>its_score = 12, risk_level = ''low''\<rparr>"
  using assms
  by (simp add: calculate_its_score_def office_def big_email_sel order_by_desc_def
        score_activities_def sample_its_def Let_def round2_def its_risk_level_def)

lemma anomalies_email: "anomalies_list_of big_email [] = [''Anomaly detected: email'']"
  by (simp add: anomalies_list_of_def lower_def big_email_sel Let_def sublist_Cons_right)

lemma ingest_alert_email:
  "snd (ingest_activity alert_model sample_its 50520 office big_email)
     = Returned \<lparr>status = ''alert_generated'', activity_logged = True, reason = None,
        alert = Some \<lparr>p_alert_id = 1, p_anomaly_alert_id = 1, p_ml_score = 0.85,
           p_its_score = 12, p_risk_level = ''critical'',
           p_anomalies = [''Anomaly detected: email''], p_explanation = [],
           p_timestamp = 50520\<rparr>,
        r_its_score = Some 12\<rparr>"
  by (simp add: ingest_activity_def Let_def split_beta order_by_desc_def
        big_email_sel alert_stage_def office_def detect_alert_email create_new_alert_returns
        its_after_email anomalies_email risk_level_of_def)

lemma duplicate_second_call:
  assumes first: "ingest_activity M E t1 db a = (db1, Returned r1)"
    and gen: "status r1 = ''alert_generated''"
    and total: "\<And>f. \<exists>p. isolation_forest M f = Inr p"
    and t: "t1 \<le> t2" "t2 < t1 + 24 * 3600"
  shows "\<exists>fp. fingerprints db1 (generate_fingerprint a (user_id a)) = Some fp
      \<and> fp_suppressed_until fp = Some (t1 + 24 * 3600)
      \<and> length (anomaly_alerts db1) = Suc (length (anomaly_alerts db))
      \<and> anomaly_fingerprint (last (anomaly_alerts db1)) = generate_fingerprint a (user_id a)
      \<and> aa_suppressed_until (last (anomaly_alerts db1)) = Some (t1 + 24 * 3600)
      \<and> ingest_activity M E t2 db1 a =
          (db1\<lparr>activity_logs := activity_logs db1 @ [a],
               user_baselines := update_user_baseline (user_baselines db1) t2 (user_id a) a,
               fingerprints := (fingerprints db1)(generate_fingerprint a (user_id a) \<mapsto>
                  fp\<lparr>last_seen := t2, fp_count := fp_count fp + 1\<rparr>)\<rparr>,
           Returned \<lparr>status = ''suppressed'', activity_logged = True,
              reason = Some ''Duplicate anomaly suppressed'', alert = None,
              r_its_score = None\<rparr>)"
proof -
  let ?h = "generate_fingerprint a (user_id a)"
  obtain user fpm ml ex dbm where u: "users db (user_id a) = Some user"
    and dbm: "dbm = db\<lparr>activity_logs := activity_logs db @ [a],
                 user_baselines := update_user_baseline (user_baselines db) t1 (user_id a) a,
                 fingerprints := (fingerprints db)(?h \<mapsto> fpm)\<rparr>"
    and cr: "create_new_alert E t1 dbm a user ?h ml ex
          (calculate_its_score E dbm t1 (user_id a))
          (risk_level_of ml (its_score (calculate_its_score E dbm t1 (user_id a))))
          (anomalies_list_of a ex) = (db1, Returned r1)"
    using ingest_alert_generated [OF first gen] by blast
  have db1: "db1 = fst (create_new_alert E t1 dbm a user ?h ml ex
          (calculate_its_score E dbm t1 (user_id a))
          (risk_level_of ml (its_score (calculate_its_score E dbm t1 (user_id a))))
          (anomalies_list_of a ex))"
    using cr by simp
  have "fingerprints dbm ?h = Some fpm" by (simp add: dbm)
  then obtain fp where fp: "fingerprints db1 ?h = Some fp"
      "fp_suppressed_until fp = Some (t1 + 24 * 3600)"
    unfolding db1 using create_new_alert_fingerprint by blast
  have u1: "\<exists>user1. users db1 (user_id a) = Some user1"
    unfolding db1 by (simp add: create_new_alert_users)
  have al: "length (anomaly_alerts db1) = Suc (length (anomaly_alerts db))
      \<and> anomaly_fingerprint (last (anomaly_alerts db1)) = ?h
      \<and> aa_suppressed_until (last (anomaly_alerts db1)) = Some (t1 + 24 * 3600)"
    unfolding db1 using create_new_alert_alerts [of E t1 dbm a user ?h ml ex]
    by (simp add: dbm)
  from u1 obtain user1 where "users db1 (user_id a) = Some user1" by blast
  then have "ingest_activity M E t2 db1 a =
          (db1\<lparr>activity_logs := activity_logs db1 @ [a],
               user_baselines := update_user_baseline (user_baselines db1) t2 (user_id a) a,
               fingerprints := (fingerprints db1)(?h \<mapsto>
                  fp\<lparr>last_seen := t2, fp_count := fp_count fp + 1\<rparr>)\<rparr>,
           Returned \<lparr>status = ''suppressed'', activity_logged = True,
              reason = Some ''Duplicate anomaly suppressed'', alert = None,
              r_its_score = None\<rparr>)"
    using fp t by (intro ingest_suppressed [OF total]) auto
  with fp al show ?thesis by blast
qed

lemma first_call_email:
  "ingest_activity alert_model sample_its 50520 office big_email =
     (fst (ingest_activity alert_model sample_its 50520 office big_email),
      Returned \<lparr>status = ''alert_generated'', activity_logged = True, reason = None,
        alert = Some \<lparr>p_alert_id = 1, p_anomaly_alert_id = 1, p_ml_score = 0.85,
           p_its_score = 12, p_risk_level = ''critical'',
           p_anomalies = [''Anomaly detected: email''], p_explanation = [],
           p_timestamp = 50520\<rparr>,
        r_its_score = Some 12\<rparr>)"
  using ingest_alert_email by (metis prod.collapse)

lemma alert_model_total: "\<exists>p. isolation_forest alert_model f = Inr p"
  by (simp add: alert_model_def)

lemma second_call_email:
  "snd (ingest_activity alert_model sample_its 50530
          (fst (ingest_activity alert_model sample_its 50520 office big_email)) big_email)
     = Returned \<lparr>status = ''suppressed'', activity_logged = True,
              reason = Some ''Duplicate anomaly suppressed'', alert = None,
              r_its_score = None\<rparr>
   \<and> user_baselines (fst (ingest_activity alert_model sample_its 50530
          (fst (ingest_activity alert_model sample_its 50520 office big_email)) big_email))
     = update_user_baseline
         (user_baselines (fst (ingest_activity alert_model sample_its 50520 office big_email)))
         50530 ''U002'' big_email"
  using duplicate_second_call [OF first_call_email _ alert_model_total, of 50530]
  by (auto simp: big_email_sel)

section \<open>Claims about the ingest handler\<close>

text \<open>
  C5. Whenever ingest answers \<^verbatim>\<open>alert_generated\<close> (a new alert was created), the
  payload carries the detector's score and the ITS of the engine, its risk band is
  critical if ml_score >= 0.80 or ITS >= 70, high if ml_score >= 0.60 or ITS >= 50,
  medium if ml_score >= 0.40 or ITS >= 30 and low otherwise; the new dashboard alert (the
  last row of the table) is marked \<^verbatim>\<open>escalated_to_incident\<close> exactly when risk =
  critical, or risk = high and ITS >= 50, or risk = high and ml_score >= 0.70, or
  ITS >= 65; in that case an incident of the user, created or refreshed at this instant,
  exists, and otherwise the incident table is unchanged.
\<close>

theorem new_alert_risk_band_and_auto_promotion:
  assumes "ingest_activity M E now db a = (db', Returned r)"
    and "status r = ''alert_generated''"
  shows "\<exists>p. alert r = Some p
     \<and> p_risk_level p =
         (if p_ml_score p \<ge> 0.8 \<or> p_its_score p \<ge> 70 then ''critical''
          else if p_ml_score p \<ge> 0.6 \<or> p_its_score p \<ge> 50 then ''high''
          else if p_ml_score p \<ge> 0.4 \<or> p_its_score p \<ge> 30 then ''medium''
          else ''low'')
     \<and> p_its_score p = its_score (calculate_its_score E
           (db\<lparr>activity_logs := activity_logs db @ [a]\<rparr>) now (user_id a))
     \<and> (\<exists>ex. snd (detect_anomaly M (user_baselines db) now a (user_id a)
              (take 100 (order_by_desc timestamp
                 (filter (\<lambda>x. user_id x = user_id a \<and> timestamp x \<ge> now - 3600)
                    (activity_logs db @ [a]))))) = Inr (True, p_ml_score p, ex))
     \<and> threat_alerts db' \<noteq> []
     \<and> ta_alert_id (last (threat_alerts db')) = p_alert_id p
     \<and> ta_risk_level (last (threat_alerts db')) = p_risk_level p
     \<and> ((ta_status (last (threat_alerts db')) = ''escalated_to_incident'') =
          (p_risk_level p = ''critical''
           \<or> (p_risk_level p = ''high'' \<and> p_its_score p \<ge> 50)
           \<or> (p_risk_level p = ''high'' \<and> p_ml_score p \<ge> 0.7)
           \<or> p_its_score p \<ge> 65))
     \<and> (if p_risk_level p = ''critical''
           \<or> (p_risk_level p = ''high'' \<and> p_its_score p \<ge> 50)
           \<or> (p_risk_level p = ''high'' \<and> p_ml_score p \<ge> 0.7)
           \<or> p_its_score p \<ge> 65
         then list_ex (\<lambda>i. in_user_id i = user_id a \<and> in_last_updated i = now) (incidents db')
         else incidents db' = incidents db)"
proof -
  let ?h = "generate_fingerprint a (user_id a)"
  obtain user fpm ml ex dbm where u: "users db (user_id a) = Some user"
    and det: "snd (detect_anomaly M (user_baselines db) now a (user_id a)
              (take 100 (order_by_desc timestamp
                 (filter (\<lambda>x. user_id x = user_id a \<and> timestamp x \<ge> now - 3600)
                    (activity_logs db @ [a]))))) = Inr (True, ml, ex)"
    and dbm: "dbm = db\<lparr>activity_logs := activity_logs db @ [a],
                 user_baselines := update_user_baseline (user_baselines db) now (user_id a) a,
                 fingerprints := (fingerprints db)(?h \<mapsto> fpm)\<rparr>"
    and cr: "create_new_alert E now dbm a user ?h ml ex
          (calculate_its_score E dbm now (user_id a))
          (risk_level_of ml (its_score (calculate_its_score E dbm now (user_id a))))
          (anomalies_list_of a ex) = (db', Returned r)"
    using ingest_alert_generated [OF assms] by blast
  define sd where "sd = calculate_its_score E dbm now (user_id a)"
  define rl where "rl = risk_level_of ml (its_score sd)"
  define ta0 :: threat_alert where "ta0 = \<lparr>ta_alert_id = Suc (length (threat_alerts dbm)),
             ta_user_id = user_id a, ta_timestamp = now, ta_its_score = its_score sd,
             ta_risk_level = rl, ta_anomalies = anomalies_list_of a ex, ta_explanation = ex,
             ta_status = ''open'', is_viewed = False\<rparr>"
  define p :: alert_payload where "p = \<lparr>p_alert_id = Suc (length (threat_alerts dbm)),
           p_anomaly_alert_id = Suc (length (anomaly_alerts dbm)), p_ml_score = ml,
           p_its_score = its_score sd, p_risk_level = rl,
           p_anomalies = anomalies_list_of a ex, p_explanation = ex, p_timestamp = now\<rparr>"
  have cr': "create_new_alert E now dbm a user ?h ml ex sd rl (anomalies_list_of a ex)
               = (db', Returned r)"
    using cr by (simp add: sd_def rl_def)
  have "snd (create_new_alert E now dbm a user ?h ml ex sd rl (anomalies_list_of a ex))
          = Returned r"
    using cr' by simp
  then have ap: "alert r = Some p"
    by (auto simp add: create_new_alert_returns p_def)
  have db': "db' = fst (create_new_alert E now dbm a user ?h ml ex sd rl (anomalies_list_of a ex))"
    using cr' by simp
  have ta: "threat_alerts db' =
     map (\<lambda>t. if should_escalate rl ml (its_score sd) \<and> ta_alert_id t = Suc (length (threat_alerts dbm))
               then t\<lparr>ta_status := ''escalated_to_incident''\<rparr> else t)
       (threat_alerts dbm @ [ta0])"
    unfolding db' ta0_def by (rule create_new_alert_threat_alerts)
  have lt: "last (threat_alerts db') =
      (if should_escalate rl ml (its_score sd) then ta0\<lparr>ta_status := ''escalated_to_incident''\<rparr>
       else ta0)"
    by (simp add: ta ta0_def)
  have ne: "threat_alerts db' \<noteq> []" by (simp add: ta)
  have sd_eq: "sd = calculate_its_score E (db\<lparr>activity_logs := activity_logs db @ [a]\<rparr>)
                      now (user_id a)"
    unfolding sd_def by (rule calculate_its_score_cong) (simp_all add: dbm)
  have inc: "if should_escalate rl ml (its_score sd)
             then list_ex (\<lambda>i. in_user_id i = user_id a \<and> in_last_updated i = now) (incidents db')
             else incidents db' = incidents db"
  proof (cases "should_escalate rl ml (its_score sd)")
    case True
    then show ?thesis
      unfolding db' using create_new_alert_incident [of rl ml sd E now dbm a user ?h ex]
      by (simp add: list_ex_iff)
  next
    case False
    then show ?thesis
      unfolding db' by (simp add: create_new_alert_incidents_unchanged dbm)
  qed
  have rlv: "rl = (if ml \<ge> 0.8 \<or> its_score sd \<ge> 70 then ''critical''
          else if ml \<ge> 0.6 \<or> its_score sd \<ge> 50 then ''high''
          else if ml \<ge> 0.4 \<or> its_score sd \<ge> 30 then ''medium''
          else ''low'')"
    by (simp add: rl_def risk_level_of_def)
  have st: "(ta_status (last (threat_alerts db')) = ''escalated_to_incident'')
              = should_escalate rl ml (its_score sd)"
    by (simp add: lt ta0_def)
  have se: "should_escalate rl ml (its_score sd) =
          (rl = ''critical'' \<or> (rl = ''high'' \<and> its_score sd \<ge> 50)
           \<or> (rl = ''high'' \<and> ml \<ge> 0.7) \<or> its_score sd \<ge> 65)"
    by (simp add: should_escalate_def)
  have sel: "p_risk_level p = rl" "p_ml_score p = ml" "p_its_score p = its_score sd"
     "p_alert_id p = Suc (length (threat_alerts dbm))"
    by (simp_all add: p_def)
  have l1: "ta_alert_id (last (threat_alerts db')) = p_alert_id p"
    by (simp add: lt ta0_def sel)
  have l2: "ta_risk_level (last (threat_alerts db')) = p_risk_level p"
    by (simp add: lt ta0_def sel)
  show ?thesis
  proof (intro exI [of _ p] conjI)
    show "alert r = Some p" by (rule ap)
    show "p_risk_level p =
         (if p_ml_score p \<ge> 0.8 \<or> p_its_score p \<ge> 70 then ''critical''
          else if p_ml_score p \<ge> 0.6 \<or> p_its_score p \<ge> 50 then ''high''
          else if p_ml_score p \<ge> 0.4 \<or> p_its_score p \<ge> 30 then ''medium''
          else ''low'')"
      unfolding sel by (rule rlv)
    show "p_its_score p = its_score (calculate_its_score E
           (db\<lparr>activity_logs := activity_logs db @ [a]\<rparr>) now (user_id a))"
      unfolding sel using sd_eq by simp
    show "\<exists>ex. snd (detect_anomaly M (user_baselines db) now a (user_id a)
              (take 100 (order_by_desc timestamp
                 (filter (\<lambda>x. user_id x = user_id a \<and> timestamp x \<ge> now - 3600)
                    (activity_logs db @ [a]))))) = Inr (True, p_ml_score p, ex)"
      unfolding sel using det by blast
    show "threat_alerts db' \<noteq> []" by (rule ne)
    show "ta_alert_id (last (threat_alerts db')) = p_alert_id p" by (rule l1)
    show "ta_risk_level (last (threat_alerts db')) = p_risk_level p" by (rule l2)
    show "(ta_status (last (threat_alerts db')) = ''escalated_to_incident'') =
          (p_risk_level p = ''critical''
           \<or> (p_risk_level p = ''high'' \<and> p_its_score p \<ge> 50)
           \<or> (p_risk_level p = ''high'' \<and> p_ml_score p \<ge> 0.7)
           \<or> p_its_score p \<ge> 65)"
      unfolding sel st se by (rule refl)
    show "if p_risk_level p = ''critical''
           \<or> (p_risk_level p = ''high'' \<and> p_its_score p \<ge> 50)
           \<or> (p_risk_level p = ''high'' \<and> p_ml_score p \<ge> 0.7)
           \<or> p_its_score p \<ge> 65
         then list_ex (\<lambda>i. in_user_id i = user_id a \<and> in_last_updated i = now) (incidents db')
         else incidents db' = incidents db"
      unfolding sel using inc unfolding se by this
  qed
qed

theorem new_alert_risk_band_and_auto_promotion_witness:
  "snd (ingest_activity alert_model sample_its 50520 office big_email)
     = Returned \<lparr>status = ''alert_generated'', activity_logged = True, reason = None,
        alert = Some \<lparr>p_alert_id = 1, p_anomaly_alert_id = 1, p_ml_score = 0.85,
           p_its_score = 12, p_risk_level = ''critical'',
           p_anomalies = [''Anomaly detected: email''], p_explanation = [],
           p_timestamp = 50520\<rparr>,
        r_its_score = Some 12\<rparr>
   \<and> ta_status (last (threat_alerts
          (fst (ingest_activity alert_model sample_its 50520 office big_email))))
       = ''escalated_to_incident''
   \<and> list_ex (\<lambda>i. in_user_id i = ''U002'' \<and> in_last_updated i = 50520)
        (incidents (fst (ingest_activity alert_model sample_its 50520 office big_email)))"
  using new_alert_risk_band_and_auto_promotion [OF first_call_email]
  by (simp add: ingest_alert_email big_email_sel)

lemma ingest_never_ok:
  "snd (ingest_activity M E now db a) = Returned r \<Longrightarrow> status r \<noteq> ''ok''"
proof -
  assume "snd (ingest_activity M E now db a) = Returned r"
  then have "ingest_activity M E now db a = (fst (ingest_activity M E now db a), Returned r)"
    by (metis prod.collapse)
  from ingest_returned_fields [OF this] show ?thesis by auto
qed




text \<open>
  C7, as stated, fails: the large external email is posted twice, ten seconds apart.
  The second response has status \<^verbatim>\<open>suppressed\<close> and no \<^verbatim>\<open>its_score\<close> field.
\<close>

theorem suppressed_response_has_no_its_score:
  "snd (ingest_activity alert_model sample_its 50530
          (fst (ingest_activity alert_model sample_its 50520 office big_email)) big_email)
     = Returned \<lparr>status = ''suppressed'', activity_logged = True,
              reason = Some ''Duplicate anomaly suppressed'', alert = None,
              r_its_score = None\<rparr>"
  using second_call_email by simp

text \<open>
  C7, amended. A response with status \<^verbatim>\<open>alert_generated\<close> carries a numeric
  \<^verbatim>\<open>its_score\<close> (the one of its alert payload); a response with status
  \<^verbatim>\<open>suppressed\<close> or \<^verbatim>\<open>already_escalated\<close> carries neither an \<^verbatim>\<open>its_score\<close> nor an
  alert payload; the suppressed one carries a reason, the other none.
\<close>

theorem its_score_field_by_status:
  assumes "ingest_activity M E now db a = (db', Returned r)"
  shows "(status r = ''alert_generated'' \<longrightarrow>
            (\<exists>x p. r_its_score r = Some x \<and> alert r = Some p \<and> p_its_score p = x))
       \<and> (status r = ''suppressed'' \<or> status r = ''already_escalated'' \<longrightarrow>
            r_its_score r = None \<and> alert r = None)
       \<and> (status r = ''suppressed'' \<longrightarrow> reason r = Some ''Duplicate anomaly suppressed'')
       \<and> (status r = ''already_escalated'' \<longrightarrow> reason r = None)"
  using ingest_returned_fields [OF assms] by auto

theorem its_score_field_by_status_witness:
  "snd (ingest_activity alert_model sample_its 50520 office big_email)
     = Returned \<lparr>status = ''alert_generated'', activity_logged = True, reason = None,
        alert = Some \<lparr>p_alert_id = 1, p_anomaly_alert_id = 1, p_ml_score = 0.85,
           p_its_score = 12, p_risk_level = ''critical'',
           p_anomalies = [''Anomaly detected: email''], p_explanation = [],
           p_timestamp = 50520\<rparr>,
        r_its_score = Some 12\<rparr>
   \<and> (\<exists>x. r_its_score \<lparr>status = ''alert_generated'', activity_logged = True, reason = None,
        alert = Some \<lparr>p_alert_id = 1, p_anomaly_alert_id = 1, p_ml_score = 0.85,
           p_its_score = 12, p_risk_level = ''critical'',
           p_anomalies = [''Anomaly detected: email''], p_explanation = [],
           p_timestamp = 50520\<rparr>,
        r_its_score = Some 12\<rparr> = Some x)"
  using its_score_field_by_status [OF first_call_email] ingest_alert_email by simp

text \<open>
  C3, as stated, fails: the large external email is posted twice, ten seconds apart.
  The second call is answered \<^verbatim>\<open>suppressed\<close>, yet it changes more than the
  fingerprint's bookkeeping: the detector's baseline of the user is not what it was
  (detection, which updates it, runs before the fingerprint is looked up).
\<close>

theorem suppressed_call_changes_detector_baseline:
  "user_baselines (fst (ingest_activity alert_model sample_its 50530
          (fst (ingest_activity alert_model sample_its 50520 office big_email)) big_email))
     \<noteq> user_baselines (fst (ingest_activity alert_model sample_its 50520 office big_email))"
proof
  let ?db1 = "fst (ingest_activity alert_model sample_its 50520 office big_email)"
  assume "user_baselines (fst (ingest_activity alert_model sample_its 50530 ?db1 big_email))
            = user_baselines ?db1"
  then have "update_user_baseline (user_baselines ?db1) 50530 ''U002'' big_email
               = user_baselines ?db1"
    using second_call_email by simp
  then have "freq_at (update_user_baseline (user_baselines ?db1) 50530 ''U002'' big_email)
                ''U002'' (hour_of 50530)
             = freq_at (user_baselines ?db1) ''U002'' (hour_of 50530)"
    by simp
  then show False
    by (simp only: freq_at_update) simp
qed

text \<open>
  C3, amended. If a call of ingest at time \<open>t1\<close> answers \<^verbatim>\<open>alert_generated\<close>, then it
  added exactly one alert row, whose \<^verbatim>\<open>suppressed_until\<close> and that of its fingerprint
  are \<open>t1\<close> + 24 h; and the same activity sent again at a time \<open>t2\<close> within those 24
  hours (the detector's library not raising) is answered \<^verbatim>\<open>suppressed\<close>, with the
  server changed in exactly three places: the activity is appended to the activity
  table, the fingerprint's last-seen and count are updated, and the detector's in-memory
  baseline of the user is updated. No alert, threat, incident, user or snapshot row
  changes.
\<close>

theorem duplicate_within_window_is_suppressed:
  assumes "ingest_activity M E t1 db a = (db1, Returned r1)"
    and "status r1 = ''alert_generated''"
    and "\<And>f. \<exists>p. isolation_forest M f = Inr p"
    and "t1 \<le> t2" and "t2 < t1 + 24 * 3600"
  shows "\<exists>fp. fingerprints db1 (generate_fingerprint a (user_id a)) = Some fp
      \<and> fp_suppressed_until fp = Some (t1 + 24 * 3600)
      \<and> length (anomaly_alerts db1) = Suc (length (anomaly_alerts db))
      \<and> anomaly_fingerprint (last (anomaly_alerts db1)) = generate_fingerprint a (user_id a)
      \<and> aa_suppressed_until (last (anomaly_alerts db1)) = Some (t1 + 24 * 3600)
      \<and> ingest_activity M E t2 db1 a =
          (db1\<lparr>activity_logs := activity_logs db1 @ [a],
               user_baselines := update_user_baseline (user_baselines db1) t2 (user_id a) a,
               fingerprints := (fingerprints db1)(generate_fingerprint a (user_id a) \<mapsto>
                  fp\<lparr>last_seen := t2, fp_count := fp_count fp + 1\<rparr>)\<rparr>,
           Returned \<lparr>status = ''suppressed'', activity_logged = True,
              reason = Some ''Duplicate anomaly suppressed'', alert = None,
              r_its_score = None\<rparr>)"
  using assms by (rule duplicate_second_call)

theorem duplicate_within_window_is_suppressed_witness:
  "snd (ingest_activity alert_model sample_its 50520 office big_email)
     = Returned \<lparr>status = ''alert_generated'', activity_logged = True, reason = None,
        alert = Some \<lparr>p_alert_id = 1, p_anomaly_alert_id = 1, p_ml_score = 0.85,
           p_its_score = 12, p_risk_level = ''critical'',
           p_anomalies = [''Anomaly detected: email''], p_explanation = [],
           p_timestamp = 50520\<rparr>,
        r_its_score = Some 12\<rparr>
   \<and> (50520 :: int) \<le> 50530 \<and> (50530 :: int) < 50520 + 24 * 3600
   \<and> length (anomaly_alerts (fst (ingest_activity alert_model sample_its 50520 office big_email)))
       = Suc (length (anomaly_alerts office))
   \<and> aa_suppressed_until (last (anomaly_alerts
         (fst (ingest_activity alert_model sample_its 50520 office big_email))))
       = Some (50520 + 24 * 3600)
   \<and> snd (ingest_activity alert_model sample_its 50530
          (fst (ingest_activity alert_model sample_its 50520 office big_email)) big_email)
       = Returned \<lparr>status = ''suppressed'', activity_logged = True,
              reason = Some ''Duplicate anomaly suppressed'', alert = None,
              r_its_score = None\<rparr>
   \<and> activity_logs (fst (ingest_activity alert_model sample_its 50530
          (fst (ingest_activity alert_model sample_its 50520 office big_email)) big_email))
       = activity_logs (fst (ingest_activity alert_model sample_its 50520 office big_email))
           @ [big_email]"
  using duplicate_within_window_is_suppressed
          [OF first_call_email _ alert_model_total, of 50530] ingest_alert_email
  by auto

section \<open>Claims about the agent's offline queue\<close>

lemma send_activity_wire:
  "wire (fst (send_activity net s a)) = wire s @ [a]"
  "local_queue (fst (send_activity net s a)) = local_queue s"
  "alert_queue (fst (send_activity net s a)) = alert_queue s"
  by (simp_all add: send_activity_def Let_def split: outcome.splits)

lemma count_alert_keeps [simp]:
  "wire (count_alert st s) = wire s"
  "local_queue (count_alert st s) = local_queue s"
  "alert_queue (count_alert st s) = alert_queue s"
  by (simp_all add: count_alert_def)

lemma retry_step_keeps:
  "wire (retry_step net a s) = wire s @ [a]"
  "alert_queue (retry_step net a s) = alert_queue s"
  using send_activity_wire [of net s a]
  by (auto simp: retry_step_def split: prod.splits option.splits)

lemma retry_step_bound:
  "length (local_queue s) \<le> 1000 \<Longrightarrow> length (local_queue (retry_step net a s)) \<le> 1000"
  using send_activity_wire [of net s a]
  by (auto simp: retry_step_def split: prod.splits option.splits)

lemma send_step_keeps:
  "wire (send_step net a s) = wire s @ [a]"
  "alert_queue (send_step net a s) = alert_queue s"
  using send_activity_wire [of net s a]
  by (auto simp: send_step_def Let_def split: prod.splits option.splits)

lemma send_step_bound:
  "length (local_queue s) \<le> 1000 \<Longrightarrow> length (local_queue (send_step net a s)) \<le> 1000"
  using send_activity_wire [of net s a]
  by (auto simp: send_step_def Let_def split: prod.splits option.splits)

lemma fold_retry:
  "wire (fold (retry_step net) xs s) = wire s @ xs
   \<and> alert_queue (fold (retry_step net) xs s) = alert_queue s
   \<and> (length (local_queue s) \<le> 1000 \<longrightarrow> length (local_queue (fold (retry_step net) xs s)) \<le> 1000)"
  by (induction xs arbitrary: s) (simp_all add: retry_step_keeps retry_step_bound)

lemma fold_send:
  "wire (fold (send_step net) xs s) = wire s @ xs
   \<and> alert_queue (fold (send_step net) xs s) = alert_queue s
   \<and> (length (local_queue s) \<le> 1000 \<longrightarrow> length (local_queue (fold (send_step net) xs s)) \<le> 1000)"
  by (induction xs arbitrary: s) (simp_all add: send_step_keeps send_step_bound)

lemma batch_drains_offline_queue_first:
  "wire (send_activities_batch net s) = wire s @ local_queue s @ alert_queue s"
  by (simp add: send_activities_batch_def Let_def fold_retry fold_send)

lemma batch_keeps_bound:
  "length (local_queue (send_activities_batch net s)) \<le> 1000"
  by (simp add: send_activities_batch_def Let_def fold_retry fold_send)

lemma retry_step_offline:
  "length (local_queue s) < 1000 \<Longrightarrow>
   local_queue (retry_step offline a s) = local_queue s @ [a]"
  by (simp add: retry_step_def send_activity_def offline_def Let_def)

lemma fold_retry_offline:
  "length (local_queue s) + length xs \<le> 1000 \<Longrightarrow>
   local_queue (fold (retry_step offline) xs s) = local_queue s @ xs"
  by (induction xs arbitrary: s) (simp_all add: retry_step_offline)

lemma send_step_offline_full:
  "length (local_queue s) = 1000 \<Longrightarrow> local_queue (send_step offline a s) = local_queue s"
  by (simp add: send_step_def send_activity_def offline_def Let_def)

lemma send_step_offline_room:
  "length (local_queue s) < 1000 \<Longrightarrow>
   local_queue (send_step offline a s) = local_queue s @ [a]"
  by (simp add: send_step_def send_activity_def offline_def Let_def)

text \<open>
  C8. The server is unreachable, the offline queue holds 1000 events (0 the oldest) and
  event 1000 is waiting to be sent. One round of \<^verbatim>\<open>_send_activities_batch\<close> retries
  the 1000 queued events first, then tries event 1000 (the order on the wire); all fail.
  Afterwards the offline queue is the same 1000 events: the new event was dropped and
  the oldest one kept, where the claim evicts the oldest and keeps the new one.
\<close>

theorem full_offline_queue_drops_new_event:
  "local_queue (send_activities_batch offline full_aggregator) = [0..<1000]
   \<and> 1000 \<notin> set (local_queue (send_activities_batch offline full_aggregator))
   \<and> wire (send_activities_batch offline full_aggregator) = [0..<1000] @ [1000]"
proof -
  let ?s0 = "full_aggregator\<lparr>local_queue := []\<rparr>"
  have r: "local_queue (fold (retry_step offline) [0..<1000] ?s0) = [0..<1000]"
    using fold_retry_offline [of ?s0 "[0..<1000]"] by simp
  have a: "alert_queue (fold (retry_step offline) [0..<1000] ?s0) = [1000]"
    by (simp add: fold_retry full_aggregator_def)
  have q: "local_queue (send_activities_batch offline full_aggregator) = [0..<1000]"
    unfolding send_activities_batch_def Let_def
    using r a by (simp add: full_aggregator_def send_step_offline_full)
  have w: "wire (send_activities_batch offline full_aggregator) = [0..<1000] @ [1000]"
    by (simp add: batch_drains_offline_queue_first full_aggregator_def)
  show ?thesis using q w by simp
qed

end
